theory Spec2Isabelle
  imports Main
begin

section \<open>The TypeScript transformer (compiler/transformers/ts.ts)\<close>

text \<open>
  A shallow embedding of the parts of \<^verbatim>\<open>transformTypeScript\<close> that the properties
  below are about. Nodes are values; the identity of a node of the source tree is its
  \<open>node_id\<close>. Text ranges, comment ranges, source-map ranges, original-node links and
  emit flags are hints for the printer and are left out. The variables that
  \<^verbatim>\<open>transformTypeScript\<close> closes over form the record \<open>transform_state\<close>, passed
  in and returned. A failed \<^verbatim>\<open>Debug\<close> assertion is the \<open>Inl\<close> of a sum.
\<close>

subsection \<open>Syntax kinds, modifiers and the produced tree\<close>

datatype SyntaxKind =
    SK_SourceFile | SK_CaseBlock | SK_ModuleBlock | SK_Block
  | SK_ClassDeclaration | SK_FunctionDeclaration | SK_ModuleDeclaration | SK_EnumDeclaration
  | SK_ClassExpression | SK_FunctionExpression
  | SK_Constructor | SK_PropertyDeclaration | SK_MethodDeclaration
  | SK_GetAccessor | SK_SetAccessor | SK_IndexSignature
  | SK_ClassStaticBlockDeclaration | SK_SemicolonClassElement
  | SK_Parameter | SK_Identifier | SK_ShorthandPropertyAssignment
  | SK_Other nat

datatype ModifierFlags =
    Export | Ambient | Default | Abstract | Static | Async
  | Public | Private | Protected | Readonly | Override | Const

datatype NodeFlags = NodeFlags_None | NodeFlags_Let

text \<open>
  The names the node factory derives from a declaration (\<^verbatim>\<open>getLocalName\<close>,
  \<^verbatim>\<open>getInternalName\<close>, \<^verbatim>\<open>getExportName\<close>, \<^verbatim>\<open>getDeclarationName\<close>) are
  copies of the declaration's identifier that differ in one emit flag.

  In the produced tree, \<open>ClassExpression name c\<close> and
  \<open>ClassDeclarationStatement modifiers name c\<close> stand for the class built from the
  visited heritage clauses and the transformed members of the source class with node id
  \<open>c\<close>, and \<open>VisitEachChild i\<close> for the node \<open>i\<close> with each child visited
  (\<^verbatim>\<open>visitEachChild\<close>). A variable statement holds the flags of its declaration
  list and, for each declaration, the name and the initializer.
\<close>

datatype NameFlavor = LocalName | InternalName | ExportName | PlainName

datatype expr =
    Identifier string
  | DeclName NameFlavor string
  | GeneratedNameForNode nat
  | UniqueName string
  | TempVariable
  | StringLiteral string
  | NumericLiteral int
  | VoidZero
  | NullLiteral
  | ThisExpr
  | ObjectLiteral
  | ArrayLiteral "expr list"
  | PropertyAccess expr expr
  | ElementAccess expr expr
  | Assignment expr expr
  | LogicalAnd expr expr
  | LogicalOr expr expr
  | StrictInequality expr expr
  | TypeOfExpr expr
  | TypeCheck expr string
  | Conditional expr expr expr
  | CallExpr expr "expr list"
  | FunctionExpr "expr list" "statement list"
  | ImmediatelyInvokedArrowFunction "statement list"
  | PartiallyEmitted expr
  | OmittedExpression
  | DecorateHelper "expr list" expr "expr option" "expr option"
  | ParamHelper expr nat
  | MetadataHelper string expr
  | ClassExpression "expr option" nat
  | SourceExpr nat
and statement =
    ExpressionStatement expr
  | VariableStatement "ModifierFlags list" NodeFlags "(expr \<times> expr option) list"
  | ReturnStatement expr
  | ClassDeclarationStatement "ModifierFlags list" "expr option" nat
  | NotEmittedStatement nat
  | EndOfDeclarationMarker nat
  | MergeDeclarationMarker statement
  | ExportDefault expr
  | ExternalModuleExport expr
  | VisitEachChild nat
  | SourceStatement nat

datatype error =
    DebugAssertFailed
  | DebugFailBadSyntaxKind
  | TypeErrorUndefined

text \<open>
  What the transformer reads of an arbitrary node: its identity, its kind, its syntactic
  modifiers and, for a declaration, the text of its identifier name.
\<close>

datatype TransformFlags = ContainsTypeScript | ContainsTypeScriptClassSyntax

record node =
  node_id :: nat
  node_kind :: SyntaxKind
  node_modifiers :: "ModifierFlags list"
  node_name :: "string option"
  node_transformFlags :: "TransformFlags list"

definition hasSyntacticModifier :: "node \<Rightarrow> ModifierFlags \<Rightarrow> bool" where
  "hasSyntacticModifier n f = (f \<in> set (node_modifiers n))"

datatype TypeScriptSubstitutionFlags = ClassAliases | NamespaceExports | NonQualifiedEnumMembers

text \<open>
  The variables of \<^verbatim>\<open>transformTypeScript\<close>. \<open>currentScopeFirstDeclarationsOfName\<close>
  is \<open>None\<close> while the source holds \<^verbatim>\<open>undefined\<close>, else the entries of the map in
  insertion order. \<open>classAliases\<close> is the sparse array indexed by node id, newest
  assignment first. The last four fields are the part of the transformation context the
  functions below write to: the syntax kinds with substitution enabled, the emit
  helpers requested so far, the variables hoisted into the current lexical environment
  and the lexical environments that are suspended.
\<close>

record transform_state =
  currentSourceFile :: "node option"
  currentNamespace :: "node option"
  currentNamespaceContainerName :: "expr option"
  currentLexicalScope :: "node option"
  currentNameScope :: "node option"
  currentScopeFirstDeclarationsOfName :: "(string \<times> node) list option"
  currentClassHasParameterProperties :: "bool option"
  enabledSubstitutions :: "TypeScriptSubstitutionFlags set"
  classAliases :: "(nat \<times> expr) list option"
  contextSubstitutionKinds :: "SyntaxKind set"
  contextEmitHelpers :: "string list"
  contextLexicalEnvironment :: "expr list"
  contextLexicalEnvironmentStack :: "expr list list"

subsection \<open>Scope tracking\<close>

text \<open>Reference equality of two optional nodes: both absent, or the same node.\<close>

definition sameNode :: "node option \<Rightarrow> node option \<Rightarrow> bool" where
  "sameNode a b = (map_option node_id a = map_option node_id b)"

text \<open>\<^verbatim>\<open>declaredNameInScope\<close>: asserts that the name is an identifier.\<close>

definition declaredNameInScope :: "node \<Rightarrow> error + string" where
  "declaredNameInScope n = (case node_name n of None \<Rightarrow> Inl DebugAssertFailed | Some x \<Rightarrow> Inr x)"

definition recordEmittedDeclarationInScope :: "transform_state \<Rightarrow> node \<Rightarrow> error + transform_state" where
  "recordEmittedDeclarationInScope s n =
     (let m = (case currentScopeFirstDeclarationsOfName s of None \<Rightarrow> [] | Some m \<Rightarrow> m) in
      case declaredNameInScope n of
        Inl e \<Rightarrow> Inl e
      | Inr x \<Rightarrow>
          Inr (s\<lparr>currentScopeFirstDeclarationsOfName :=
                 Some (if map_of m x = None then m @ [(x, n)] else m)\<rparr>))"

definition isFirstEmittedDeclarationInScope :: "transform_state \<Rightarrow> node \<Rightarrow> error + bool" where
  "isFirstEmittedDeclarationInScope s n =
     (case currentScopeFirstDeclarationsOfName s of
        Some m \<Rightarrow>
          (case declaredNameInScope n of
             Inl e \<Rightarrow> Inl e
           | Inr x \<Rightarrow> Inr (sameNode (map_of m x) (Some n)))
      | None \<Rightarrow> Inr True)"

definition onBeforeVisitNode :: "transform_state \<Rightarrow> node \<Rightarrow> error + transform_state" where
  "onBeforeVisitNode s n =
     (if node_kind n \<in> {SK_SourceFile, SK_CaseBlock, SK_ModuleBlock, SK_Block} then
        Inr (s\<lparr>currentLexicalScope := Some n,
               currentNameScope := None,
               currentScopeFirstDeclarationsOfName := None\<rparr>)
      else if node_kind n \<in> {SK_ClassDeclaration, SK_FunctionDeclaration} then
        (if hasSyntacticModifier n Ambient then Inr s
         else
           (case (if node_name n \<noteq> None then recordEmittedDeclarationInScope s n
                  else if node_kind n = SK_ClassDeclaration \<or> hasSyntacticModifier n Default
                       then Inr s else Inl DebugAssertFailed) of
              Inl e \<Rightarrow> Inl e
            | Inr s1 \<Rightarrow>
                Inr (if node_kind n = SK_ClassDeclaration
                     then s1\<lparr>currentNameScope := Some n\<rparr> else s1)))
      else Inr s)"

text \<open>
  \<^verbatim>\<open>saveStateAndInvoke(node, f)\<close>. The callback \<open>f\<close> is any visit: it gets the state
  left by \<open>onBeforeVisitNode\<close> and returns its result with the state it leaves. An
  exception of \<open>f\<close> leaves the function before the restore.
\<close>

definition saveStateAndInvoke ::
  "transform_state \<Rightarrow> node \<Rightarrow> (node \<Rightarrow> transform_state \<Rightarrow> error + ('a \<times> transform_state))
     \<Rightarrow> error + ('a \<times> transform_state)" where
  "saveStateAndInvoke s n f =
     (let savedCurrentScope = currentLexicalScope s;
          savedCurrentNameScope = currentNameScope s;
          savedCurrentScopeFirstDeclarationsOfName = currentScopeFirstDeclarationsOfName s;
          savedCurrentClassHasParameterProperties = currentClassHasParameterProperties s in
      case onBeforeVisitNode s n of
        Inl e \<Rightarrow> Inl e
      | Inr s1 \<Rightarrow>
          (case f n s1 of
             Inl e \<Rightarrow> Inl e
           | Inr (visited, s2) \<Rightarrow>
               (let s3 = (if \<not> sameNode (currentLexicalScope s2) savedCurrentScope
                          then s2\<lparr>currentScopeFirstDeclarationsOfName :=
                                    savedCurrentScopeFirstDeclarationsOfName\<rparr>
                          else s2) in
                Inr (visited,
                     s3\<lparr>currentLexicalScope := savedCurrentScope,
                        currentNameScope := savedCurrentNameScope,
                        currentClassHasParameterProperties :=
                          savedCurrentClassHasParameterProperties\<rparr>))))"

subsection \<open>Source files\<close>

record SourceFile =
  sf_node :: node
  isDeclarationFile :: bool
  sf_statements :: "statement list"
  sf_emitHelpers :: "string list"

text \<open>
  \<^verbatim>\<open>addEmitHelpers\<close> (factory/emitNode.ts) appends each helper the node does not
  hold yet; \<^verbatim>\<open>context.readEmitHelpers()\<close> hands over the requested helpers and
  forgets them.
\<close>

definition addEmitHelpers :: "SourceFile \<Rightarrow> string list \<Rightarrow> SourceFile" where
  "addEmitHelpers sf hs =
     sf\<lparr>sf_emitHelpers := foldl (\<lambda>acc h. if h \<in> set acc then acc else acc @ [h]) (sf_emitHelpers sf) hs\<rparr>"

text \<open>
  \<^verbatim>\<open>transformSourceFile\<close>. The parameter \<open>visitSourceFile\<close> is the visit of the
  file's statements (\<^verbatim>\<open>visitSourceFile\<close>, which runs the whole traversal).
\<close>

definition transformSourceFile ::
  "(SourceFile \<Rightarrow> transform_state \<Rightarrow> error + (SourceFile \<times> transform_state))
     \<Rightarrow> transform_state \<Rightarrow> SourceFile \<Rightarrow> error + (SourceFile \<times> transform_state)" where
  "transformSourceFile visitSourceFile s sf =
     (if isDeclarationFile sf then Inr (sf, s)
      else
        (let s1 = s\<lparr>currentSourceFile := Some (sf_node sf)\<rparr> in
         case saveStateAndInvoke s1 (sf_node sf) (\<lambda>_. visitSourceFile sf) of
           Inl e \<Rightarrow> Inl e
         | Inr (visited, s2) \<Rightarrow>
             Inr (addEmitHelpers visited (contextEmitHelpers s2),
                  s2\<lparr>contextEmitHelpers := [], currentSourceFile := None\<rparr>)))"

subsection \<open>Enumeration members\<close>

datatype PropertyName =
    IdentifierName string
  | PrivateIdentifierName string
  | ComputedPropertyName nat expr
  | StringLiteralName string
  | NumericLiteralName int

text \<open>
  \<^verbatim>\<open>getExpressionForPropertyName\<close>. \<open>isSimpleInlineableExpression\<close> (utilities.ts)
  is a parameter; the last argument is \<^verbatim>\<open>generateNameForComputedPropertyName\<close>.
\<close>

fun getExpressionForPropertyName :: "(expr \<Rightarrow> bool) \<Rightarrow> PropertyName \<Rightarrow> bool \<Rightarrow> expr" where
  "getExpressionForPropertyName isSimpleInlineableExpression (PrivateIdentifierName x) g =
     Identifier []"
| "getExpressionForPropertyName isSimpleInlineableExpression (ComputedPropertyName i e) g =
     (if g \<and> \<not> isSimpleInlineableExpression e then GeneratedNameForNode i else e)"
| "getExpressionForPropertyName isSimpleInlineableExpression (IdentifierName x) g =
     StringLiteral x"
| "getExpressionForPropertyName isSimpleInlineableExpression (StringLiteralName x) g =
     StringLiteral x"
| "getExpressionForPropertyName isSimpleInlineableExpression (NumericLiteralName k) g =
     NumericLiteral k"

record EnumMember =
  em_node :: node
  em_name :: PropertyName
  em_initializer :: "expr option"

text \<open>The answer of \<^verbatim>\<open>resolver.getConstantValue\<close>: a string or a number.\<close>

datatype ConstantValue = ConstantString string | ConstantNumber int

definition enableSubstitutionForNonQualifiedEnumMembers :: "transform_state \<Rightarrow> transform_state" where
  "enableSubstitutionForNonQualifiedEnumMembers s =
     (if NonQualifiedEnumMembers \<notin> enabledSubstitutions s
      then s\<lparr>enabledSubstitutions := insert NonQualifiedEnumMembers (enabledSubstitutions s),
             contextSubstitutionKinds := insert SK_Identifier (contextSubstitutionKinds s)\<rparr>
      else s)"

text \<open>
  The parameters of the enumeration functions: \<open>getConstantValue\<close> is the resolver's
  answer for a member (by node id) and \<open>visitor\<close> is the general-purpose visitor
  applied to an initializer expression.
\<close>

type_synonym expr_visitor = "expr \<Rightarrow> transform_state \<Rightarrow> error + (expr \<times> transform_state)"

definition transformEnumMemberDeclarationValue ::
  "(nat \<Rightarrow> ConstantValue option) \<Rightarrow> expr_visitor \<Rightarrow> transform_state \<Rightarrow> EnumMember
     \<Rightarrow> error + (expr \<times> transform_state)" where
  "transformEnumMemberDeclarationValue getConstantValue visitor s member =
     (case getConstantValue (node_id (em_node member)) of
        Some (ConstantString v) \<Rightarrow> Inr (StringLiteral v, s)
      | Some (ConstantNumber v) \<Rightarrow> Inr (NumericLiteral v, s)
      | None \<Rightarrow>
          (let s1 = enableSubstitutionForNonQualifiedEnumMembers s in
           case em_initializer member of
             Some e \<Rightarrow> visitor e s1
           | None \<Rightarrow> Inr (VoidZero, s1)))"

text \<open>\<^verbatim>\<open>valueExpression.kind === SyntaxKind.StringLiteral\<close>\<close>

fun isStringLiteralKind :: "expr \<Rightarrow> bool" where
  "isStringLiteralKind (StringLiteral x) = True"
| "isStringLiteralKind e = False"

text \<open>
  \<^verbatim>\<open>transformEnumMember\<close>. It reads \<^verbatim>\<open>currentNamespaceContainerName\<close>, which
  \<^verbatim>\<open>transformEnumBody\<close> has assigned before; the source has no branch for the
  unassigned variable, and the node factory fails on the absent operand. The name is
  taken with \<^verbatim>\<open>generateNameForComputedPropertyName\<close> false, so that
  \<^verbatim>\<open>isSimpleInlineableExpression\<close> is never asked.
\<close>

definition transformEnumMember ::
  "(nat \<Rightarrow> ConstantValue option) \<Rightarrow> expr_visitor \<Rightarrow> transform_state \<Rightarrow> EnumMember
     \<Rightarrow> error + (statement \<times> transform_state)" where
  "transformEnumMember getConstantValue visitor s member =
     (let name = getExpressionForPropertyName (\<lambda>_. False) (em_name member) False in
      case transformEnumMemberDeclarationValue getConstantValue visitor s member of
        Inl e \<Rightarrow> Inl e
      | Inr (valueExpression, s1) \<Rightarrow>
          (case currentNamespaceContainerName s1 of
             None \<Rightarrow> Inl TypeErrorUndefined
           | Some container \<Rightarrow>
               (let innerAssignment = Assignment (ElementAccess container name) valueExpression;
                    outerAssignment =
                      (if isStringLiteralKind valueExpression then innerAssignment
                       else Assignment (ElementAccess container innerAssignment) name)
                in Inr (ExpressionStatement outerAssignment, s1))))"

subsection \<open>Serialization of type nodes for decorator metadata\<close>

datatype LiteralKind =
    LK_StringLiteral | LK_NoSubstitutionTemplateLiteral
  | LK_PrefixUnaryExpression | LK_NumericLiteral | LK_BigIntLiteral
  | LK_TrueKeyword | LK_FalseKeyword | LK_NullKeyword
  | LK_Other nat

datatype EntityName = EntityIdentifier string | QualifiedName EntityName string

datatype TypeOperatorKind = KeyOfKeyword | UniqueKeyword | ReadonlyKeyword

text \<open>
  The type nodes, one constructor for each syntax kind. The children that the
  serializer never reads are left out. The last five kinds are type nodes for which
  the \<^verbatim>\<open>switch\<close> of \<^verbatim>\<open>serializeTypeNode\<close> has no \<^verbatim>\<open>case\<close>.
\<close>

datatype TypeNode =
    VoidKeyword | UndefinedKeyword | NeverKeyword
  | ParenthesizedType TypeNode
  | FunctionType | ConstructorType
  | ArrayType TypeNode | TupleType "TypeNode list"
  | TypePredicate | BooleanKeyword
  | StringKeyword
  | ObjectKeyword
  | LiteralType LiteralKind
  | NumberKeyword
  | BigIntKeyword
  | SymbolKeyword
  | TypeReference EntityName "TypeNode list"
  | IntersectionType "TypeNode list" | UnionType "TypeNode list"
  | ConditionalType TypeNode TypeNode TypeNode TypeNode
  | TypeOperator TypeOperatorKind TypeNode
  | TypeQuery | IndexedAccessType | MappedType | TypeLiteral
  | AnyKeyword | UnknownKeyword | ThisType | ImportType
  | JSDocAllType | JSDocUnknownType | JSDocFunctionType | JSDocVariadicType
  | JSDocNamepathType
  | JSDocNullableType TypeNode | JSDocNonNullableType TypeNode | JSDocOptionalType TypeNode
  | TemplateLiteralType | InferType | OptionalType TypeNode | RestType TypeNode
  | NamedTupleMember TypeNode

datatype TypeReferenceSerializationKind =
    Unknown | TypeWithConstructSignatureAndValue | VoidNullableOrNeverType
  | NumberLikeType | BigIntLikeType | StringLikeType | BooleanType | ArrayLikeType
  | ESSymbolType | Promise | TypeWithCallSignature | ObjectType

text \<open>\<^verbatim>\<open>ScriptTarget\<close>, by its numeric value.\<close>

definition ES3 :: nat where "ES3 = 0"
definition ES5 :: nat where "ES5 = 1"
definition ES2015 :: nat where "ES2015 = 2"
definition ESNext :: nat where "ESNext = 99"

text \<open>
  The compiler options the transformer reads and the resolver's classification of a
  type reference, for a type name and the scope it is asked from.
\<close>

datatype ModuleKind =
    ModuleKind_None | ModuleKind_CommonJS | ModuleKind_AMD | ModuleKind_UMD | ModuleKind_System
  | ModuleKind_ES2015 | ModuleKind_ES2020 | ModuleKind_ES2022 | ModuleKind_ESNext
  | ModuleKind_Node12 | ModuleKind_NodeNext

record CompilerEnv =
  strictNullChecks :: bool
  languageVersion :: nat
  moduleKind :: ModuleKind
  emitDecoratorMetadata :: bool
  preserveConstEnums :: bool
  isolatedModules :: bool
  getTypeReferenceSerializationKind :: "EntityName \<Rightarrow> node option \<Rightarrow> TypeReferenceSerializationKind"

fun isIdentifier :: "expr \<Rightarrow> bool" where
  "isIdentifier (Identifier x) = True"
| "isIdentifier (DeclName f x) = True"
| "isIdentifier (GeneratedNameForNode i) = True"
| "isIdentifier (UniqueName x) = True"
| "isIdentifier TempVariable = True"
| "isIdentifier e = False"

fun escapedText :: "expr \<Rightarrow> string" where
  "escapedText (Identifier x) = x"
| "escapedText (DeclName f x) = x"
| "escapedText (UniqueName x) = x"
| "escapedText e = []"

definition getGlobalSymbolNameWithFallback :: expr where
  "getGlobalSymbolNameWithFallback =
     Conditional (TypeCheck (Identifier ''Symbol'') ''function'') (Identifier ''Symbol'')
       (Identifier ''Object'')"

definition getGlobalBigIntNameWithFallback :: "CompilerEnv \<Rightarrow> expr" where
  "getGlobalBigIntNameWithFallback env =
     (if languageVersion env < ESNext
      then Conditional (TypeCheck (Identifier ''BigInt'') ''function'') (Identifier ''BigInt'')
             (Identifier ''Object'')
      else Identifier ''BigInt'')"

fun serializeEntityNameAsExpression :: "EntityName \<Rightarrow> expr" where
  "serializeEntityNameAsExpression (EntityIdentifier x) = Identifier x"
| "serializeEntityNameAsExpression (QualifiedName l r) =
     PropertyAccess (serializeEntityNameAsExpression l) (Identifier r)"

definition createCheckedValue :: "expr \<Rightarrow> expr \<Rightarrow> expr \<times> expr" where
  "createCheckedValue left right =
     (StrictInequality (TypeOfExpr left) (StringLiteral ''undefined''), right)"

text \<open>
  \<^verbatim>\<open>serializeEntityNameAsExpressionFallback\<close> returns a binary expression
  \<^verbatim>\<open>left && right\<close>, given here by its two operands, which the recursive case
  reads.
\<close>

fun serializeEntityNameAsExpressionFallback :: "EntityName \<Rightarrow> expr \<times> expr" where
  "serializeEntityNameAsExpressionFallback (EntityIdentifier x) =
     createCheckedValue (serializeEntityNameAsExpression (EntityIdentifier x))
       (serializeEntityNameAsExpression (EntityIdentifier x))"
| "serializeEntityNameAsExpressionFallback (QualifiedName (EntityIdentifier a) r) =
     createCheckedValue (serializeEntityNameAsExpression (EntityIdentifier a))
       (serializeEntityNameAsExpression (QualifiedName (EntityIdentifier a) r))"
| "serializeEntityNameAsExpressionFallback (QualifiedName l r) =
     (let left = serializeEntityNameAsExpressionFallback l in
      (LogicalAnd (fst left) (StrictInequality (Assignment TempVariable (snd left)) VoidZero),
       PropertyAccess TempVariable (Identifier r)))"

text \<open>
  \<^verbatim>\<open>serializeTypeReferenceNode\<close>. \<open>inConditionalBranch\<close> is the result of the
  \<^verbatim>\<open>findAncestor\<close> call: the node or one of its ancestors is the true or the false
  type of a conditional type.
\<close>

definition serializeTypeReferenceNode ::
  "CompilerEnv \<Rightarrow> node option \<Rightarrow> bool \<Rightarrow> EntityName \<Rightarrow> expr" where
  "serializeTypeReferenceNode env scope inConditionalBranch typeName =
     (case getTypeReferenceSerializationKind env typeName scope of
        Unknown \<Rightarrow>
          (if inConditionalBranch then Identifier ''Object''
           else
             (let serialized = serializeEntityNameAsExpressionFallback typeName in
              Conditional
                (TypeCheck (Assignment TempVariable (LogicalAnd (fst serialized) (snd serialized)))
                   ''function'')
                TempVariable
                (Identifier ''Object'')))
      | TypeWithConstructSignatureAndValue \<Rightarrow> serializeEntityNameAsExpression typeName
      | VoidNullableOrNeverType \<Rightarrow> VoidZero
      | BigIntLikeType \<Rightarrow> getGlobalBigIntNameWithFallback env
      | BooleanType \<Rightarrow> Identifier ''Boolean''
      | NumberLikeType \<Rightarrow> Identifier ''Number''
      | StringLikeType \<Rightarrow> Identifier ''String''
      | ArrayLikeType \<Rightarrow> Identifier ''Array''
      | ESSymbolType \<Rightarrow>
          (if languageVersion env < ES2015 then getGlobalSymbolNameWithFallback
           else Identifier ''Symbol'')
      | TypeWithCallSignature \<Rightarrow> Identifier ''Function''
      | Promise \<Rightarrow> Identifier ''Promise''
      | ObjectType \<Rightarrow> Identifier ''Object'')"

text \<open>The loop that skips parentheses in \<^verbatim>\<open>serializeTypeList\<close>.\<close>

fun skipParenthesizedType :: "TypeNode \<Rightarrow> TypeNode" where
  "skipParenthesizedType (ParenthesizedType t) = skipParenthesizedType t"
| "skipParenthesizedType t = t"

text \<open>A measure on type nodes under which every call of the serializer descends.\<close>

fun typeNodeWeight :: "TypeNode \<Rightarrow> nat" where
  "typeNodeWeight (ParenthesizedType t) = Suc (typeNodeWeight t)"
| "typeNodeWeight (IntersectionType ts) = Suc (sum_list (map (\<lambda>t. Suc (typeNodeWeight t)) ts))"
| "typeNodeWeight (UnionType ts) = Suc (sum_list (map (\<lambda>t. Suc (typeNodeWeight t)) ts))"
| "typeNodeWeight (ConditionalType c e t f) = typeNodeWeight t + typeNodeWeight f + 3"
| "typeNodeWeight (TypeOperator k t) = Suc (typeNodeWeight t)"
| "typeNodeWeight (JSDocNullableType t) = Suc (typeNodeWeight t)"
| "typeNodeWeight (JSDocNonNullableType t) = Suc (typeNodeWeight t)"
| "typeNodeWeight (JSDocOptionalType t) = Suc (typeNodeWeight t)"
| "typeNodeWeight t = 0"

lemma typeNodeWeight_skipParenthesizedType:
  "typeNodeWeight (skipParenthesizedType t) \<le> typeNodeWeight t"
  by (induction t rule: skipParenthesizedType.induct) auto

lemma typeNodeWeight_skipParenthesizedType_less:
  "typeNodeWeight (skipParenthesizedType t) < Suc (typeNodeWeight t + k)"
  using typeNodeWeight_skipParenthesizedType [of t] by arith

text \<open>
  \<^verbatim>\<open>serializeTypeNode\<close> and the loop of \<^verbatim>\<open>serializeTypeList\<close>, whose fourth
  argument is the local variable \<^verbatim>\<open>serializedUnion\<close>.
\<close>

function serializeTypeNode ::
    "CompilerEnv \<Rightarrow> node option \<Rightarrow> bool \<Rightarrow> TypeNode option \<Rightarrow> error + expr"
  and serializeTypeListFrom ::
    "CompilerEnv \<Rightarrow> node option \<Rightarrow> bool \<Rightarrow> expr option \<Rightarrow> TypeNode list \<Rightarrow> error + expr"
where
  "serializeTypeNode env scope inConditionalBranch node =
     (case node of
        None \<Rightarrow> Inr (Identifier ''Object'')
      | Some n \<Rightarrow>
         (case n of
            VoidKeyword \<Rightarrow> Inr VoidZero
          | UndefinedKeyword \<Rightarrow> Inr VoidZero
          | NeverKeyword \<Rightarrow> Inr VoidZero
          | ParenthesizedType t \<Rightarrow> serializeTypeNode env scope inConditionalBranch (Some t)
          | FunctionType \<Rightarrow> Inr (Identifier ''Function'')
          | ConstructorType \<Rightarrow> Inr (Identifier ''Function'')
          | ArrayType t \<Rightarrow> Inr (Identifier ''Array'')
          | TupleType ts \<Rightarrow> Inr (Identifier ''Array'')
          | TypePredicate \<Rightarrow> Inr (Identifier ''Boolean'')
          | BooleanKeyword \<Rightarrow> Inr (Identifier ''Boolean'')
          | StringKeyword \<Rightarrow> Inr (Identifier ''String'')
          | ObjectKeyword \<Rightarrow> Inr (Identifier ''Object'')
          | LiteralType literal \<Rightarrow>
              (case literal of
                 LK_StringLiteral \<Rightarrow> Inr (Identifier ''String'')
               | LK_NoSubstitutionTemplateLiteral \<Rightarrow> Inr (Identifier ''String'')
               | LK_PrefixUnaryExpression \<Rightarrow> Inr (Identifier ''Number'')
               | LK_NumericLiteral \<Rightarrow> Inr (Identifier ''Number'')
               | LK_BigIntLiteral \<Rightarrow> Inr (getGlobalBigIntNameWithFallback env)
               | LK_TrueKeyword \<Rightarrow> Inr (Identifier ''Boolean'')
               | LK_FalseKeyword \<Rightarrow> Inr (Identifier ''Boolean'')
               | LK_NullKeyword \<Rightarrow> Inr VoidZero
               | LK_Other k \<Rightarrow> Inl DebugFailBadSyntaxKind)
          | NumberKeyword \<Rightarrow> Inr (Identifier ''Number'')
          | BigIntKeyword \<Rightarrow> Inr (getGlobalBigIntNameWithFallback env)
          | SymbolKeyword \<Rightarrow>
              Inr (if languageVersion env < ES2015 then getGlobalSymbolNameWithFallback
                   else Identifier ''Symbol'')
          | TypeReference typeName typeArguments \<Rightarrow>
              Inr (serializeTypeReferenceNode env scope inConditionalBranch typeName)
          | IntersectionType types \<Rightarrow>
              serializeTypeListFrom env scope inConditionalBranch None types
          | UnionType types \<Rightarrow>
              serializeTypeListFrom env scope inConditionalBranch None types
          | ConditionalType checkType extendsType trueType falseType \<Rightarrow>
              serializeTypeListFrom env scope True None [trueType, falseType]
          | TypeOperator operator t \<Rightarrow>
              (if operator = ReadonlyKeyword
               then serializeTypeNode env scope inConditionalBranch (Some t)
               else Inr (Identifier ''Object''))
          | TypeQuery \<Rightarrow> Inr (Identifier ''Object'')
          | IndexedAccessType \<Rightarrow> Inr (Identifier ''Object'')
          | MappedType \<Rightarrow> Inr (Identifier ''Object'')
          | TypeLiteral \<Rightarrow> Inr (Identifier ''Object'')
          | AnyKeyword \<Rightarrow> Inr (Identifier ''Object'')
          | UnknownKeyword \<Rightarrow> Inr (Identifier ''Object'')
          | ThisType \<Rightarrow> Inr (Identifier ''Object'')
          | ImportType \<Rightarrow> Inr (Identifier ''Object'')
          | JSDocAllType \<Rightarrow> Inr (Identifier ''Object'')
          | JSDocUnknownType \<Rightarrow> Inr (Identifier ''Object'')
          | JSDocFunctionType \<Rightarrow> Inr (Identifier ''Object'')
          | JSDocVariadicType \<Rightarrow> Inr (Identifier ''Object'')
          | JSDocNamepathType \<Rightarrow> Inr (Identifier ''Object'')
          | JSDocNullableType t \<Rightarrow> serializeTypeNode env scope inConditionalBranch (Some t)
          | JSDocNonNullableType t \<Rightarrow> serializeTypeNode env scope inConditionalBranch (Some t)
          | JSDocOptionalType t \<Rightarrow> serializeTypeNode env scope inConditionalBranch (Some t)
          | TemplateLiteralType \<Rightarrow> Inl DebugFailBadSyntaxKind
          | InferType \<Rightarrow> Inl DebugFailBadSyntaxKind
          | OptionalType t \<Rightarrow> Inl DebugFailBadSyntaxKind
          | RestType t \<Rightarrow> Inl DebugFailBadSyntaxKind
          | NamedTupleMember t \<Rightarrow> Inl DebugFailBadSyntaxKind))"
| "serializeTypeListFrom env scope inConditionalBranch serializedUnion types =
     (case types of
        [] \<Rightarrow> Inr (case serializedUnion of Some u \<Rightarrow> u | None \<Rightarrow> VoidZero)
      | typeNode0 # rest \<Rightarrow>
          (let typeNode = skipParenthesizedType typeNode0 in
           if typeNode = NeverKeyword then
             serializeTypeListFrom env scope inConditionalBranch serializedUnion rest
           else if \<not> strictNullChecks env
                   \<and> (typeNode = LiteralType LK_NullKeyword \<or> typeNode = UndefinedKeyword) then
             serializeTypeListFrom env scope inConditionalBranch serializedUnion rest
           else
             (case serializeTypeNode env scope inConditionalBranch (Some typeNode) of
                Inl e \<Rightarrow> Inl e
              | Inr serializedIndividual \<Rightarrow>
                  if isIdentifier serializedIndividual
                     \<and> escapedText serializedIndividual = ''Object'' then
                    Inr serializedIndividual
                  else
                    (case serializedUnion of
                       Some u \<Rightarrow>
                         if \<not> isIdentifier u \<or> \<not> isIdentifier serializedIndividual
                            \<or> escapedText u \<noteq> escapedText serializedIndividual
                         then Inr (Identifier ''Object'')
                         else serializeTypeListFrom env scope inConditionalBranch serializedUnion rest
                     | None \<Rightarrow>
                         serializeTypeListFrom env scope inConditionalBranch
                           (Some serializedIndividual) rest))))"
  by pat_completeness auto

termination
proof (relation "measure (\<lambda>x. case x of
          Inl (env, scope, b, node) \<Rightarrow> (case node of None \<Rightarrow> 0 | Some t \<Rightarrow> typeNodeWeight t)
        | Inr (env, scope, b, u, ts) \<Rightarrow> sum_list (map (\<lambda>t. Suc (typeNodeWeight t)) ts))")
qed (auto simp: typeNodeWeight_skipParenthesizedType_less)


declare serializeTypeNode.simps [simp del] serializeTypeListFrom.simps [simp del]

text \<open>
  The forms of a serialized type (\<^verbatim>\<open>SerializedTypeNode\<close>): \<^verbatim>\<open>void 0\<close>, an
  identifier, a property access on an entity name, or a conditional that tests
  \<^verbatim>\<open>typeof ... === "function"\<close> and falls back to \<^verbatim>\<open>Object\<close>.
\<close>

fun isEntityNameExpression :: "expr \<Rightarrow> bool" where
  "isEntityNameExpression (Identifier x) = True"
| "isEntityNameExpression (PropertyAccess e (Identifier x)) = isEntityNameExpression e"
| "isEntityNameExpression e = False"

fun isSerializedTypeNode :: "expr \<Rightarrow> bool" where
  "isSerializedTypeNode VoidZero = True"
| "isSerializedTypeNode (Identifier x) = True"
| "isSerializedTypeNode (PropertyAccess e (Identifier x)) = isEntityNameExpression e"
| "isSerializedTypeNode (Conditional c t f) =
     ((\<exists>v. c = TypeCheck v ''function'') \<and> f = Identifier ''Object'')"
| "isSerializedTypeNode e = False"

text \<open>
  The type nodes all of whose kinds, as far as the serializer can descend into them,
  have a \<^verbatim>\<open>case\<close> in the \<^verbatim>\<open>switch\<close> of \<^verbatim>\<open>serializeTypeNode\<close> (and, for a
  literal type, in the inner \<^verbatim>\<open>switch\<close> on the kind of the literal).
\<close>

fun handledTypeNode :: "TypeNode \<Rightarrow> bool" where
  "handledTypeNode (ParenthesizedType t) = handledTypeNode t"
| "handledTypeNode (LiteralType k) = (case k of LK_Other n \<Rightarrow> False | _ \<Rightarrow> True)"
| "handledTypeNode (IntersectionType ts) = list_all handledTypeNode ts"
| "handledTypeNode (UnionType ts) = list_all handledTypeNode ts"
| "handledTypeNode (ConditionalType c e t f) = (handledTypeNode t \<and> handledTypeNode f)"
| "handledTypeNode (TypeOperator k t) = (k \<noteq> ReadonlyKeyword \<or> handledTypeNode t)"
| "handledTypeNode (JSDocNullableType t) = handledTypeNode t"
| "handledTypeNode (JSDocNonNullableType t) = handledTypeNode t"
| "handledTypeNode (JSDocOptionalType t) = handledTypeNode t"
| "handledTypeNode TemplateLiteralType = False"
| "handledTypeNode InferType = False"
| "handledTypeNode (OptionalType t) = False"
| "handledTypeNode (RestType t) = False"
| "handledTypeNode (NamedTupleMember t) = False"
| "handledTypeNode t = True"



subsection \<open>Names and export expressions\<close>

text \<open>
  The name functions of the node factory (\<^verbatim>\<open>getName\<close> and its variants): a copy
  of the declaration's identifier with the emit flag of the variant, or a generated
  name for a declaration without an identifier name.
\<close>

definition getName :: "node \<Rightarrow> NameFlavor \<Rightarrow> expr" where
  "getName n flavor =
     (case node_name n of Some x \<Rightarrow> DeclName flavor x | None \<Rightarrow> GeneratedNameForNode (node_id n))"

definition getLocalName :: "node \<Rightarrow> expr" where
  "getLocalName n = getName n LocalName"

definition getInternalName :: "node \<Rightarrow> expr" where
  "getInternalName n = getName n InternalName"

definition getExportName :: "node \<Rightarrow> expr" where
  "getExportName n = getName n ExportName"

definition getDeclarationName :: "node \<Rightarrow> expr" where
  "getDeclarationName n = getName n PlainName"

definition getExternalModuleOrNamespaceExportName :: "expr option \<Rightarrow> node \<Rightarrow> expr" where
  "getExternalModuleOrNamespaceExportName ns n =
     (case ns of
        Some container \<Rightarrow>
          if hasSyntacticModifier n Export then PropertyAccess container (getName n PlainName)
          else getExportName n
      | None \<Rightarrow> getExportName n)"

definition isExportOfNamespace :: "transform_state \<Rightarrow> node \<Rightarrow> bool" where
  "isExportOfNamespace s n = (currentNamespace s \<noteq> None \<and> hasSyntacticModifier n Export)"

definition isExternalModuleExport :: "transform_state \<Rightarrow> node \<Rightarrow> bool" where
  "isExternalModuleExport s n = (currentNamespace s = None \<and> hasSyntacticModifier n Export)"

definition isNamedExternalModuleExport :: "transform_state \<Rightarrow> node \<Rightarrow> bool" where
  "isNamedExternalModuleExport s n =
     (isExternalModuleExport s n \<and> \<not> hasSyntacticModifier n Default)"

definition isDefaultExternalModuleExport :: "transform_state \<Rightarrow> node \<Rightarrow> bool" where
  "isDefaultExternalModuleExport s n =
     (isExternalModuleExport s n \<and> hasSyntacticModifier n Default)"

definition addExportMemberAssignment ::
  "transform_state \<Rightarrow> statement list \<Rightarrow> node \<Rightarrow> statement list" where
  "addExportMemberAssignment s statements n =
     statements @
       [ExpressionStatement
          (Assignment
             (getExternalModuleOrNamespaceExportName (currentNamespaceContainerName s) n)
             (getLocalName n))]"

text \<open>
  Modelled from the spec: the purely type-level modifiers that the modifier-list
  visitor strips (\<^verbatim>\<open>ModifierFlags.TypeScriptModifier\<close>, a constant of types.ts).
\<close>

definition TypeScriptModifier :: "ModifierFlags set" where
  "TypeScriptModifier =
     {Ambient, Public, Private, Protected, Readonly, Abstract, Const, Override}"

definition modifierVisitor :: "transform_state \<Rightarrow> ModifierFlags \<Rightarrow> ModifierFlags option" where
  "modifierVisitor s m =
     (if m \<in> TypeScriptModifier then None
      else if currentNamespace s \<noteq> None \<and> m = Export then None
      else Some m)"

text \<open>
  \<^verbatim>\<open>insertStatementsAfterStandardPrologue\<close> (utilities.ts): the declarations go
  after the leading directives of the list.
\<close>

fun isPrologueDirective :: "statement \<Rightarrow> bool" where
  "isPrologueDirective (ExpressionStatement (StringLiteral x)) = True"
| "isPrologueDirective st = False"

definition insertStatementsAfterStandardPrologue ::
  "statement list \<Rightarrow> statement list \<Rightarrow> statement list" where
  "insertStatementsAfterStandardPrologue to declarations =
     takeWhile isPrologueDirective to @ declarations @ dropWhile isPrologueDirective to"

subsection \<open>Function-like declarations without a body\<close>

text \<open>
  A body is absent, or the zero-width block that the parser puts where a body is
  required (\<open>MissingBody\<close>), or a block of the source; \<open>EmptyBlock\<close> is the result of
  \<^verbatim>\<open>factory.createBlock([])\<close>. \<^verbatim>\<open>nodeIsMissing\<close> holds of the first two.
\<close>

datatype FunctionBody = MissingBody | Body nat | EmptyBlock

definition nodeIsMissing :: "FunctionBody option \<Rightarrow> bool" where
  "nodeIsMissing b = (b = None \<or> b = Some MissingBody)"

datatype BindingName = BindingIdentifier string | BindingPattern nat

record ParameterDeclaration =
  p_name :: BindingName
  p_decorators :: "expr list option"
  p_modifiers :: "ModifierFlags list"
  p_dotDotDotToken :: bool
  p_type :: "TypeNode option"

text \<open>
  A class member or a function: what the transformer reads of it. The last two fields
  are answers of helpers that are not part of this file: \<^verbatim>\<open>nodeOrChildIsDecorated\<close>
  and \<^verbatim>\<open>isAsyncFunction\<close> of utilities.ts.
\<close>

record Declaration =
  d_node :: node
  d_name :: "PropertyName option"
  d_decorators :: "expr list option"
  d_parameters :: "ParameterDeclaration list"
  d_type :: "TypeNode option"
  d_body :: "FunctionBody option"
  d_initializer :: "expr option"
  d_nodeOrChildIsDecorated :: bool
  d_isAsyncFunction :: bool

text \<open>The updated node that a visit of a function-like declaration returns.\<close>

record VisitedFunctionLike =
  vf_kind :: SyntaxKind
  vf_modifiers :: "ModifierFlags list"
  vf_propertyName :: "PropertyName option"
  vf_name :: "string option"
  vf_parameters :: "ParameterDeclaration list"
  vf_body :: "FunctionBody option"

datatype VisitedStatement = Emitted statement | UpdatedFunctionDeclaration VisitedFunctionLike

datatype VisitedExpression = EmittedExpression expr | UpdatedFunctionExpression VisitedFunctionLike

text \<open>
  The visits of the children, as parameters: \<^verbatim>\<open>visitParameterList\<close> and
  \<^verbatim>\<open>visitFunctionBody\<close> of visitorPublic.ts, and the two functions of this file that
  run the general visitor over a name and over a constructor body.
\<close>

record MemberVisitors =
  visitParameterList :: "ParameterDeclaration list \<Rightarrow> ParameterDeclaration list"
  visitFunctionBody :: "FunctionBody option \<Rightarrow> FunctionBody option"
  visitPropertyNameOfClassElement :: "Declaration \<Rightarrow> PropertyName option"
  transformConstructorBody :: "Declaration \<Rightarrow> FunctionBody"

definition shouldEmitFunctionLikeDeclaration :: "Declaration \<Rightarrow> bool" where
  "shouldEmitFunctionLikeDeclaration n = (\<not> nodeIsMissing (d_body n))"

definition shouldEmitAccessorDeclaration :: "Declaration \<Rightarrow> bool" where
  "shouldEmitAccessorDeclaration n =
     (\<not> (nodeIsMissing (d_body n) \<and> hasSyntacticModifier (d_node n) Abstract))"

definition visitConstructor :: "MemberVisitors \<Rightarrow> Declaration \<Rightarrow> VisitedFunctionLike option" where
  "visitConstructor V n =
     (if \<not> shouldEmitFunctionLikeDeclaration n then None
      else Some \<lparr>vf_kind = SK_Constructor, vf_modifiers = [], vf_propertyName = None,
                 vf_name = None, vf_parameters = visitParameterList V (d_parameters n),
                 vf_body = Some (transformConstructorBody V n)\<rparr>)"

definition visitMethodDeclaration ::
  "MemberVisitors \<Rightarrow> transform_state \<Rightarrow> Declaration \<Rightarrow> VisitedFunctionLike option" where
  "visitMethodDeclaration V s n =
     (if \<not> shouldEmitFunctionLikeDeclaration n then None
      else Some \<lparr>vf_kind = SK_MethodDeclaration,
                 vf_modifiers = List.map_filter (modifierVisitor s) (node_modifiers (d_node n)),
                 vf_propertyName = visitPropertyNameOfClassElement V n,
                 vf_name = None, vf_parameters = visitParameterList V (d_parameters n),
                 vf_body = visitFunctionBody V (d_body n)\<rparr>)"

definition visitGetAccessor ::
  "MemberVisitors \<Rightarrow> transform_state \<Rightarrow> Declaration \<Rightarrow> VisitedFunctionLike option" where
  "visitGetAccessor V s n =
     (if \<not> shouldEmitAccessorDeclaration n then None
      else Some \<lparr>vf_kind = SK_GetAccessor,
                 vf_modifiers = List.map_filter (modifierVisitor s) (node_modifiers (d_node n)),
                 vf_propertyName = visitPropertyNameOfClassElement V n,
                 vf_name = None, vf_parameters = visitParameterList V (d_parameters n),
                 vf_body = (case visitFunctionBody V (d_body n) of
                              Some b \<Rightarrow> Some b | None \<Rightarrow> Some EmptyBlock)\<rparr>)"

definition visitSetAccessor ::
  "MemberVisitors \<Rightarrow> transform_state \<Rightarrow> Declaration \<Rightarrow> VisitedFunctionLike option" where
  "visitSetAccessor V s n =
     (if \<not> shouldEmitAccessorDeclaration n then None
      else Some \<lparr>vf_kind = SK_SetAccessor,
                 vf_modifiers = List.map_filter (modifierVisitor s) (node_modifiers (d_node n)),
                 vf_propertyName = visitPropertyNameOfClassElement V n,
                 vf_name = None, vf_parameters = visitParameterList V (d_parameters n),
                 vf_body = (case visitFunctionBody V (d_body n) of
                              Some b \<Rightarrow> Some b | None \<Rightarrow> Some EmptyBlock)\<rparr>)"

definition visitFunctionDeclaration ::
  "MemberVisitors \<Rightarrow> transform_state \<Rightarrow> Declaration \<Rightarrow> VisitedStatement list" where
  "visitFunctionDeclaration V s n =
     (if \<not> shouldEmitFunctionLikeDeclaration n
      then [Emitted (NotEmittedStatement (node_id (d_node n)))]
      else
        (let updated = \<lparr>vf_kind = SK_FunctionDeclaration,
                 vf_modifiers = List.map_filter (modifierVisitor s) (node_modifiers (d_node n)),
                 vf_propertyName = None,
                 vf_name = node_name (d_node n),
                 vf_parameters = visitParameterList V (d_parameters n),
                 vf_body = (case visitFunctionBody V (d_body n) of
                              Some b \<Rightarrow> Some b | None \<Rightarrow> Some EmptyBlock)\<rparr> in
         if isExportOfNamespace s (d_node n)
         then UpdatedFunctionDeclaration updated
                # map Emitted (addExportMemberAssignment s [] (d_node n))
         else [UpdatedFunctionDeclaration updated]))"

definition visitFunctionExpression ::
  "MemberVisitors \<Rightarrow> transform_state \<Rightarrow> Declaration \<Rightarrow> VisitedExpression" where
  "visitFunctionExpression V s n =
     (if \<not> shouldEmitFunctionLikeDeclaration n then EmittedExpression OmittedExpression
      else UpdatedFunctionExpression
             \<lparr>vf_kind = SK_FunctionExpression,
              vf_modifiers = List.map_filter (modifierVisitor s) (node_modifiers (d_node n)),
              vf_propertyName = None,
              vf_name = node_name (d_node n),
              vf_parameters = visitParameterList V (d_parameters n),
              vf_body = (case visitFunctionBody V (d_body n) of
                           Some b \<Rightarrow> Some b | None \<Rightarrow> Some EmptyBlock)\<rparr>)"

subsection \<open>Enumerations and namespaces\<close>


text \<open>
  \<^verbatim>\<open>addVarForEnumOrModuleDeclaration\<close>. It reads the kind of the current lexical
  scope, which is set whenever a statement is visited; the source has no branch for an
  unset scope.
\<close>

definition addVarForEnumOrModuleDeclaration ::
  "transform_state \<Rightarrow> statement list \<Rightarrow> node \<Rightarrow> error + (bool \<times> statement list \<times> transform_state)" where
  "addVarForEnumOrModuleDeclaration s statements n =
     (case currentLexicalScope s of
        None \<Rightarrow> Inl TypeErrorUndefined
      | Some scope \<Rightarrow>
          (let statement =
                 VariableStatement
                   (List.map_filter (modifierVisitor s) (node_modifiers n))
                   (if node_kind scope = SK_SourceFile then NodeFlags_None else NodeFlags_Let)
                   [(getLocalName n, None)] in
           case recordEmittedDeclarationInScope s n of
             Inl e \<Rightarrow> Inl e
           | Inr s1 \<Rightarrow>
               (case isFirstEmittedDeclarationInScope s1 n of
                  Inl e \<Rightarrow> Inl e
                | Inr first \<Rightarrow>
                    if first then Inr (True, statements @ [statement], s1)
                    else Inr (False, statements @ [MergeDeclarationMarker statement], s1))))"











text \<open>
  A namespace declaration: its body is a block of statements or, for a dotted name,
  the declaration of the inner namespace.
\<close>

datatype ModuleDeclaration = ModuleDeclaration node "ModuleBody option"
and ModuleBody = ModuleBlock node "statement list" | NestedModuleDeclaration ModuleDeclaration


fun moduleNode :: "ModuleDeclaration \<Rightarrow> node" where
  "moduleNode (ModuleDeclaration n body) = n"


subsection \<open>The transformation context\<close>

text \<open>
  The part of the transformation context that the functions below act on, beside the
  substitutions: the lexical environment and the emit helpers. As far as this
  transformer uses it, a lexical environment holds the variables that
  \<^verbatim>\<open>hoistVariableDeclaration\<close> has added since \<^verbatim>\<open>startLexicalEnvironment\<close> began
  it, the environments begun before being kept on a stack;
  \<^verbatim>\<open>endLexicalEnvironment\<close> returns one variable statement that declares the hoisted
  variables, or nothing when there is none, and goes back to the environment before.
  \<^verbatim>\<open>requestEmitHelper\<close> adds a helper to those requested; the helpers that the
  factory of emit helpers requests are named as in factory/emitHelpers.ts.
\<close>

definition hoistVariableDeclaration :: "expr \<Rightarrow> transform_state \<Rightarrow> transform_state" where
  "hoistVariableDeclaration name s =
     s\<lparr>contextLexicalEnvironment := contextLexicalEnvironment s @ [name]\<rparr>"

definition startLexicalEnvironment :: "transform_state \<Rightarrow> transform_state" where
  "startLexicalEnvironment s =
     s\<lparr>contextLexicalEnvironmentStack :=
          contextLexicalEnvironment s # contextLexicalEnvironmentStack s,
        contextLexicalEnvironment := []\<rparr>"

definition hoistedVariableStatement :: "expr list \<Rightarrow> statement list" where
  "hoistedVariableStatement variables =
     (if variables = [] then []
      else [VariableStatement [] NodeFlags_None (map (\<lambda>v. (v, None)) variables)])"

definition endLexicalEnvironment :: "transform_state \<Rightarrow> statement list \<times> transform_state" where
  "endLexicalEnvironment s =
     (hoistedVariableStatement (contextLexicalEnvironment s),
      (case contextLexicalEnvironmentStack s of
         [] \<Rightarrow> s\<lparr>contextLexicalEnvironment := []\<rparr>
       | environment # rest \<Rightarrow>
           s\<lparr>contextLexicalEnvironment := environment,
              contextLexicalEnvironmentStack := rest\<rparr>))"

definition requestEmitHelper :: "string \<Rightarrow> transform_state \<Rightarrow> transform_state" where
  "requestEmitHelper helper s = s\<lparr>contextEmitHelpers := contextEmitHelpers s @ [helper]\<rparr>"

definition decorateHelper :: string where "decorateHelper = ''typescript:decorate''"
definition metadataHelper :: string where "metadataHelper = ''typescript:metadata''"
definition paramHelper :: string where "paramHelper = ''typescript:param''"

subsection \<open>The temporaries of the serializer\<close>

text \<open>
  The serializer has one effect: \<^verbatim>\<open>serializeTypeReferenceNode\<close> and
  \<^verbatim>\<open>serializeEntityNameAsExpressionFallback\<close> create their temporary with
  \<^verbatim>\<open>factory.createTempVariable(hoistVariableDeclaration)\<close>, which hoists it. The
  functions below count the temporaries that a call creates, by the same descent as
  the call: one for each qualified name whose left side is itself qualified, one more
  for a type reference of unknown kind outside a conditional type, and in a list those
  of the constituents that the loop reaches.
\<close>

fun hoistedByEntityNameFallback :: "EntityName \<Rightarrow> nat" where
  "hoistedByEntityNameFallback (EntityIdentifier x) = 0"
| "hoistedByEntityNameFallback (QualifiedName (EntityIdentifier a) r) = 0"
| "hoistedByEntityNameFallback (QualifiedName l r) = Suc (hoistedByEntityNameFallback l)"

definition hoistedByTypeReferenceNode ::
  "CompilerEnv \<Rightarrow> node option \<Rightarrow> bool \<Rightarrow> EntityName \<Rightarrow> nat" where
  "hoistedByTypeReferenceNode env scope inConditionalBranch typeName =
     (case getTypeReferenceSerializationKind env typeName scope of
        Unknown \<Rightarrow>
          (if inConditionalBranch then 0 else Suc (hoistedByEntityNameFallback typeName))
      | _ \<Rightarrow> 0)"

function hoistedByTypeNode ::
    "CompilerEnv \<Rightarrow> node option \<Rightarrow> bool \<Rightarrow> TypeNode option \<Rightarrow> nat"
  and hoistedByTypeListFrom ::
    "CompilerEnv \<Rightarrow> node option \<Rightarrow> bool \<Rightarrow> expr option \<Rightarrow> TypeNode list \<Rightarrow> nat"
where
  "hoistedByTypeNode env scope inConditionalBranch node =
     (case node of
        None \<Rightarrow> 0
      | Some n \<Rightarrow>
         (case n of
            ParenthesizedType t \<Rightarrow> hoistedByTypeNode env scope inConditionalBranch (Some t)
          | TypeReference typeName typeArguments \<Rightarrow>
              hoistedByTypeReferenceNode env scope inConditionalBranch typeName
          | IntersectionType types \<Rightarrow>
              hoistedByTypeListFrom env scope inConditionalBranch None types
          | UnionType types \<Rightarrow>
              hoistedByTypeListFrom env scope inConditionalBranch None types
          | ConditionalType checkType extendsType trueType falseType \<Rightarrow>
              hoistedByTypeListFrom env scope True None [trueType, falseType]
          | TypeOperator operator t \<Rightarrow>
              (if operator = ReadonlyKeyword
               then hoistedByTypeNode env scope inConditionalBranch (Some t)
               else 0)
          | JSDocNullableType t \<Rightarrow> hoistedByTypeNode env scope inConditionalBranch (Some t)
          | JSDocNonNullableType t \<Rightarrow> hoistedByTypeNode env scope inConditionalBranch (Some t)
          | JSDocOptionalType t \<Rightarrow> hoistedByTypeNode env scope inConditionalBranch (Some t)
          | _ \<Rightarrow> 0))"
| "hoistedByTypeListFrom env scope inConditionalBranch serializedUnion types =
     (case types of
        [] \<Rightarrow> 0
      | typeNode0 # rest \<Rightarrow>
          (let typeNode = skipParenthesizedType typeNode0 in
           if typeNode = NeverKeyword then
             hoistedByTypeListFrom env scope inConditionalBranch serializedUnion rest
           else if \<not> strictNullChecks env
                   \<and> (typeNode = LiteralType LK_NullKeyword \<or> typeNode = UndefinedKeyword) then
             hoistedByTypeListFrom env scope inConditionalBranch serializedUnion rest
           else
             hoistedByTypeNode env scope inConditionalBranch (Some typeNode)
             + (case serializeTypeNode env scope inConditionalBranch (Some typeNode) of
                  Inl e \<Rightarrow> 0
                | Inr serializedIndividual \<Rightarrow>
                    if isIdentifier serializedIndividual
                       \<and> escapedText serializedIndividual = ''Object'' then 0
                    else
                      (case serializedUnion of
                         Some u \<Rightarrow>
                           if \<not> isIdentifier u \<or> \<not> isIdentifier serializedIndividual
                              \<or> escapedText u \<noteq> escapedText serializedIndividual
                           then 0
                           else hoistedByTypeListFrom env scope inConditionalBranch
                                  serializedUnion rest
                       | None \<Rightarrow>
                           hoistedByTypeListFrom env scope inConditionalBranch
                             (Some serializedIndividual) rest))))"
  by pat_completeness auto

termination
proof (relation "measure (\<lambda>x. case x of
          Inl (env, scope, b, node) \<Rightarrow> (case node of None \<Rightarrow> 0 | Some t \<Rightarrow> typeNodeWeight t)
        | Inr (env, scope, b, u, ts) \<Rightarrow> sum_list (map (\<lambda>t. Suc (typeNodeWeight t)) ts))")
qed (auto simp: typeNodeWeight_skipParenthesizedType_less)

declare hoistedByTypeNode.simps [simp del] hoistedByTypeListFrom.simps [simp del]

text \<open>A call of \<^verbatim>\<open>serializeTypeNode\<close> with its effect on the context.\<close>

definition serializeTypeNodeInContext ::
  "CompilerEnv \<Rightarrow> node option \<Rightarrow> TypeNode option \<Rightarrow> transform_state
     \<Rightarrow> error + (expr \<times> transform_state)" where
  "serializeTypeNodeInContext env scope node s =
     (case serializeTypeNode env scope False node of
        Inl e \<Rightarrow> Inl e
      | Inr serialized \<Rightarrow>
          Inr (serialized,
               ((hoistVariableDeclaration TempVariable) ^^ hoistedByTypeNode env scope False node)
                 s))"

subsection \<open>Classes and their decorators\<close>

datatype ClassFacts =
    HasStaticInitializedProperties | HasConstructorDecorators | HasMemberDecorators
  | IsExportOfNamespace | IsNamedExternalExport | IsDefaultExternalExport
  | IsDerivedClass | UseImmediatelyInvokedFunctionExpression

definition HasAnyDecorators :: "ClassFacts set" where
  "HasAnyDecorators = {HasConstructorDecorators, HasMemberDecorators}"

definition NeedsName :: "ClassFacts set" where
  "NeedsName = {HasStaticInitializedProperties, HasMemberDecorators}"

definition MayNeedImmediatelyInvokedFunctionExpression :: "ClassFacts set" where
  "MayNeedImmediatelyInvokedFunctionExpression =
     HasAnyDecorators \<union> {HasStaticInitializedProperties}"

text \<open>
  A class declaration. The last three fields are answers of helpers of utilities.ts
  about the class: whether \<^verbatim>\<open>getEffectiveBaseTypeNode\<close> gives a base that is not
  \<^verbatim>\<open>null\<close>, \<^verbatim>\<open>classOrConstructorParameterIsDecorated\<close> and
  \<^verbatim>\<open>childIsDecorated\<close>.
\<close>

record ClassDeclaration =
  c_node :: node
  c_decorators :: "expr list option"
  c_hasTypeParameters :: bool
  c_heritageClauses :: "node list"
  c_members :: "Declaration list"
  c_hasNonNullBase :: bool
  c_classOrConstructorParameterIsDecorated :: bool
  c_childIsDecorated :: bool

record AllAccessorDeclarations =
  firstAccessor :: Declaration
  secondAccessor :: "Declaration option"
  getAccessor :: "Declaration option"
  setAccessor :: "Declaration option"

text \<open>
  What the class functions take from outside this file. Three visits of children, each
  with the state it leaves: the general visitor on an expression, the visit of the
  heritage clauses (\<^verbatim>\<open>visitNodes(node.heritageClauses, visitor, isHeritageClause)\<close>)
  and the visit of the members with \<^verbatim>\<open>classElementVisitor\<close>; and
  \<^verbatim>\<open>visitEachChild\<close> on a class. The nodes that the last three return are part of
  the class node produced, which the model names by the node id of the class. Then
  \<^verbatim>\<open>getAllAccessorDeclarations\<close>, \<^verbatim>\<open>getRestParameterElementType\<close> and
  \<^verbatim>\<open>isSimpleInlineableExpression\<close> of utilities.ts, the type node that
  \<^verbatim>\<open>getAccessorTypeNode\<close> finds through the resolver, and the resolver's check flag
  \<^verbatim>\<open>ClassWithConstructorReference\<close> of a class (by node id).
\<close>

record ClassHost =
  visitExpression :: expr_visitor
  visitHeritageClauses :: "node list \<Rightarrow> transform_state \<Rightarrow> error + transform_state"
  visitClassElements :: "Declaration list \<Rightarrow> transform_state \<Rightarrow> error + transform_state"
  visitEachChild :: "ClassDeclaration \<Rightarrow> transform_state \<Rightarrow> error + transform_state"
  getAllAccessorDeclarations :: "Declaration list \<Rightarrow> Declaration \<Rightarrow> AllAccessorDeclarations"
  getAccessorTypeNode :: "Declaration \<Rightarrow> TypeNode option"
  getRestParameterElementType :: "TypeNode option \<Rightarrow> TypeNode option"
  isSimpleInlineableExpression :: "expr \<Rightarrow> bool"
  classWithConstructorReference :: "nat \<Rightarrow> bool"

definition hasStaticModifier :: "Declaration \<Rightarrow> bool" where
  "hasStaticModifier m = hasSyntacticModifier (d_node m) Static"

definition isStatic :: "Declaration \<Rightarrow> bool" where
  "isStatic m = (hasStaticModifier m \<or> node_kind (d_node m) = SK_ClassStaticBlockDeclaration)"

text \<open>\<^verbatim>\<open>getProperties(node, requireInitializer, isStatic)\<close> of utilities.ts.\<close>

definition getProperties :: "ClassDeclaration \<Rightarrow> bool \<Rightarrow> bool \<Rightarrow> Declaration list" where
  "getProperties node requireInitializer static =
     filter (\<lambda>m. node_kind (d_node m) = SK_PropertyDeclaration
                \<and> (d_initializer m \<noteq> None \<or> \<not> requireInitializer)
                \<and> hasStaticModifier m = static)
       (c_members node)"

text \<open>\<^verbatim>\<open>getFirstConstructorWithBody\<close> of utilities.ts.\<close>

definition getFirstConstructorWithBody :: "ClassDeclaration \<Rightarrow> Declaration option" where
  "getFirstConstructorWithBody node =
     List.find (\<lambda>m. node_kind (d_node m) = SK_Constructor \<and> \<not> nodeIsMissing (d_body m))
       (c_members node)"

definition getClassFacts ::
  "CompilerEnv \<Rightarrow> transform_state \<Rightarrow> ClassDeclaration \<Rightarrow> Declaration list \<Rightarrow> ClassFacts set" where
  "getClassFacts env s node staticProperties =
     (let facts = (if staticProperties \<noteq> [] then {HasStaticInitializedProperties} else {})
            \<union> (if c_hasNonNullBase node then {IsDerivedClass} else {})
            \<union> (if c_classOrConstructorParameterIsDecorated node
                then {HasConstructorDecorators} else {})
            \<union> (if c_childIsDecorated node then {HasMemberDecorators} else {})
            \<union> (if isExportOfNamespace s (c_node node) then {IsExportOfNamespace}
                else if isDefaultExternalModuleExport s (c_node node)
                then {IsDefaultExternalExport}
                else if isNamedExternalModuleExport s (c_node node)
                then {IsNamedExternalExport} else {})
      in if languageVersion env \<le> ES5
            \<and> facts \<inter> MayNeedImmediatelyInvokedFunctionExpression \<noteq> {}
         then insert UseImmediatelyInvokedFunctionExpression facts else facts)"

definition hasTypeScriptClassSyntax :: "node \<Rightarrow> bool" where
  "hasTypeScriptClassSyntax n = (ContainsTypeScriptClassSyntax \<in> set (node_transformFlags n))"

definition isClassLikeDeclarationWithTypeScriptSyntax :: "ClassDeclaration \<Rightarrow> bool" where
  "isClassLikeDeclarationWithTypeScriptSyntax node =
     ((case c_decorators node of None \<Rightarrow> False | Some ds \<Rightarrow> ds \<noteq> [])
      \<or> c_hasTypeParameters node
      \<or> list_ex hasTypeScriptClassSyntax (c_heritageClauses node)
      \<or> list_ex (\<lambda>m. hasTypeScriptClassSyntax (d_node m)) (c_members node))"

definition isDecoratedClassElement :: "Declaration \<Rightarrow> bool \<Rightarrow> bool" where
  "isDecoratedClassElement member isStaticElement =
     (d_nodeOrChildIsDecorated member \<and> isStaticElement = isStatic member)"

definition getDecoratedClassElements :: "ClassDeclaration \<Rightarrow> bool \<Rightarrow> Declaration list" where
  "getDecoratedClassElements node static =
     filter (\<lambda>m. isDecoratedClassElement m static) (c_members node)"

record AllDecorators =
  ad_decorators :: "expr list option"
  ad_parameters :: "(expr list option) list option"

definition parameterIsThisKeyword :: "ParameterDeclaration \<Rightarrow> bool" where
  "parameterIsThisKeyword p = (p_name p = BindingIdentifier ''this'')"

text \<open>
  The loop of \<^verbatim>\<open>getDecoratorsOfParameters\<close> from index \<open>i\<close> on; the array is created
  with \<open>numParameters\<close> empty slots (\<open>None\<close>) when the first decorators are found.
\<close>

fun getDecoratorsOfParametersFrom ::
  "nat \<Rightarrow> (expr list option) list option \<Rightarrow> nat \<Rightarrow> ParameterDeclaration list
     \<Rightarrow> (expr list option) list option" where
  "getDecoratorsOfParametersFrom numParameters decorators i [] = decorators"
| "getDecoratorsOfParametersFrom numParameters decorators i (parameter # rest) =
     (if decorators \<noteq> None \<or> p_decorators parameter \<noteq> None
      then getDecoratorsOfParametersFrom numParameters
             (Some ((case decorators of None \<Rightarrow> replicate numParameters None | Some a \<Rightarrow> a)
                      [i := p_decorators parameter]))
             (Suc i) rest
      else getDecoratorsOfParametersFrom numParameters decorators (Suc i) rest)"

definition getDecoratorsOfParameters :: "Declaration option \<Rightarrow> (expr list option) list option" where
  "getDecoratorsOfParameters node =
     (case node of
        None \<Rightarrow> None
      | Some n \<Rightarrow>
          (let parameters = d_parameters n;
               firstParameterIsThis = (parameters \<noteq> [] \<and> parameterIsThisKeyword (hd parameters));
               firstParameterOffset = (if firstParameterIsThis then 1 else 0);
               numParameters = (if firstParameterIsThis then length parameters - 1
                                else length parameters)
           in getDecoratorsOfParametersFrom numParameters None 0
                (drop firstParameterOffset parameters)))"

definition getAllDecoratorsOfConstructor :: "ClassDeclaration \<Rightarrow> AllDecorators option" where
  "getAllDecoratorsOfConstructor node =
     (let decorators = c_decorators node;
          parameters = getDecoratorsOfParameters (getFirstConstructorWithBody node) in
      if decorators = None \<and> parameters = None then None
      else Some \<lparr>ad_decorators = decorators, ad_parameters = parameters\<rparr>)"

definition getAllDecoratorsOfAccessors ::
  "ClassHost \<Rightarrow> ClassDeclaration \<Rightarrow> Declaration \<Rightarrow> AllDecorators option" where
  "getAllDecoratorsOfAccessors host node accessor =
     (if d_body accessor = None then None
      else
        (let accessors = getAllAccessorDeclarations host (c_members node) accessor;
             firstAccessorWithDecorators =
               (if d_decorators (firstAccessor accessors) \<noteq> None
                then Some (firstAccessor accessors)
                else (case secondAccessor accessors of
                        Some second \<Rightarrow> if d_decorators second \<noteq> None then Some second else None
                      | None \<Rightarrow> None)) in
         case firstAccessorWithDecorators of
           None \<Rightarrow> None
         | Some first \<Rightarrow>
             if node_id (d_node accessor) \<noteq> node_id (d_node first) then None
             else
               (let decorators = d_decorators first;
                    parameters = getDecoratorsOfParameters (setAccessor accessors) in
                if decorators = None \<and> parameters = None then None
                else Some \<lparr>ad_decorators = decorators, ad_parameters = parameters\<rparr>)))"

definition getAllDecoratorsOfMethod :: "Declaration \<Rightarrow> AllDecorators option" where
  "getAllDecoratorsOfMethod method =
     (if d_body method = None then None
      else
        (let decorators = d_decorators method;
             parameters = getDecoratorsOfParameters (Some method) in
         if decorators = None \<and> parameters = None then None
         else Some \<lparr>ad_decorators = decorators, ad_parameters = parameters\<rparr>))"

definition getAllDecoratorsOfProperty :: "Declaration \<Rightarrow> AllDecorators option" where
  "getAllDecoratorsOfProperty property =
     (case d_decorators property of
        None \<Rightarrow> None
      | Some ds \<Rightarrow> Some \<lparr>ad_decorators = Some ds, ad_parameters = None\<rparr>)"

definition getAllDecoratorsOfClassElement ::
  "ClassHost \<Rightarrow> ClassDeclaration \<Rightarrow> Declaration \<Rightarrow> AllDecorators option" where
  "getAllDecoratorsOfClassElement host node member =
     (if node_kind (d_node member) = SK_GetAccessor \<or> node_kind (d_node member) = SK_SetAccessor
      then getAllDecoratorsOfAccessors host node member
      else if node_kind (d_node member) = SK_MethodDeclaration
      then getAllDecoratorsOfMethod member
      else if node_kind (d_node member) = SK_PropertyDeclaration
      then getAllDecoratorsOfProperty member
      else None)"

subsubsection \<open>Type metadata\<close>

text \<open>
  The declaration that decorators are transformed for: the class itself (for the
  decorators of the constructor) or one of its members.
\<close>

datatype DecoratedNode = DecoratedClass ClassDeclaration | DecoratedMember Declaration

fun decoratedKind :: "DecoratedNode \<Rightarrow> SyntaxKind" where
  "decoratedKind (DecoratedClass c) = node_kind (c_node c)"
| "decoratedKind (DecoratedMember m) = node_kind (d_node m)"

definition shouldAddTypeMetadata :: "DecoratedNode \<Rightarrow> bool" where
  "shouldAddTypeMetadata node =
     (decoratedKind node = SK_MethodDeclaration
      \<or> decoratedKind node = SK_GetAccessor
      \<or> decoratedKind node = SK_SetAccessor
      \<or> decoratedKind node = SK_PropertyDeclaration)"

definition shouldAddReturnTypeMetadata :: "DecoratedNode \<Rightarrow> bool" where
  "shouldAddReturnTypeMetadata node = (decoratedKind node = SK_MethodDeclaration)"

fun shouldAddParamTypesMetadata :: "DecoratedNode \<Rightarrow> bool" where
  "shouldAddParamTypesMetadata (DecoratedClass c) =
     (if node_kind (c_node c) = SK_ClassDeclaration \<or> node_kind (c_node c) = SK_ClassExpression
      then getFirstConstructorWithBody c \<noteq> None else False)"
| "shouldAddParamTypesMetadata (DecoratedMember m) =
     (node_kind (d_node m) = SK_MethodDeclaration
      \<or> node_kind (d_node m) = SK_GetAccessor
      \<or> node_kind (d_node m) = SK_SetAccessor)"

text \<open>The scope the resolver is asked from: \<^verbatim>\<open>currentNameScope || currentLexicalScope\<close>.\<close>

definition serializationScope :: "transform_state \<Rightarrow> node option" where
  "serializationScope s =
     (case currentNameScope s of Some n \<Rightarrow> Some n | None \<Rightarrow> currentLexicalScope s)"

text \<open>
  \<^verbatim>\<open>serializeTypeOfNode\<close> on a class or a member; on a parameter it is
  \<^verbatim>\<open>serializeTypeNode\<close> of the type of the parameter, as
  \<open>serializeParameterTypesFrom\<close> has it. A type annotation is not inside a conditional
  type, so the serializer starts with the flag off.
\<close>

fun serializeTypeOfNode ::
  "CompilerEnv \<Rightarrow> ClassHost \<Rightarrow> transform_state \<Rightarrow> DecoratedNode
     \<Rightarrow> error + (expr \<times> transform_state)" where
  "serializeTypeOfNode env host s (DecoratedMember m) =
     (if node_kind (d_node m) = SK_PropertyDeclaration \<or> node_kind (d_node m) = SK_Parameter
      then serializeTypeNodeInContext env (serializationScope s) (d_type m) s
      else if node_kind (d_node m) = SK_SetAccessor \<or> node_kind (d_node m) = SK_GetAccessor
      then serializeTypeNodeInContext env (serializationScope s) (getAccessorTypeNode host m) s
      else if node_kind (d_node m) = SK_ClassDeclaration
              \<or> node_kind (d_node m) = SK_ClassExpression
              \<or> node_kind (d_node m) = SK_MethodDeclaration
      then Inr (Identifier ''Function'', s)
      else Inr (VoidZero, s))"
| "serializeTypeOfNode env host s (DecoratedClass c) =
     (if node_kind (c_node c) = SK_ClassDeclaration \<or> node_kind (c_node c) = SK_ClassExpression
      then Inr (Identifier ''Function'', s)
      else Inr (VoidZero, s))"

text \<open>\<^verbatim>\<open>isFunctionLike\<close> of utilities.ts, on the kinds of a class member.\<close>

definition isFunctionLike :: "SyntaxKind \<Rightarrow> bool" where
  "isFunctionLike k =
     (k \<in> {SK_MethodDeclaration, SK_Constructor, SK_GetAccessor, SK_SetAccessor,
            SK_FunctionDeclaration, SK_FunctionExpression, SK_IndexSignature})"

definition getParametersOfDecoratedDeclaration ::
  "ClassHost \<Rightarrow> Declaration \<Rightarrow> ClassDeclaration \<Rightarrow> ParameterDeclaration list" where
  "getParametersOfDecoratedDeclaration host n container =
     (if node_kind (d_node n) = SK_GetAccessor
      then (case setAccessor (getAllAccessorDeclarations host (c_members container) n) of
              Some setter \<Rightarrow> d_parameters setter
            | None \<Rightarrow> d_parameters n)
      else d_parameters n)"

text \<open>The loop of \<^verbatim>\<open>serializeParameterTypesOfNode\<close> from index \<open>i\<close> on.\<close>

fun serializeParameterTypesFrom ::
  "CompilerEnv \<Rightarrow> ClassHost \<Rightarrow> transform_state \<Rightarrow> nat \<Rightarrow> ParameterDeclaration list
     \<Rightarrow> error + (expr list \<times> transform_state)" where
  "serializeParameterTypesFrom env host s i [] = Inr ([], s)"
| "serializeParameterTypesFrom env host s i (parameter # rest) =
     (if i = 0 \<and> p_name parameter = BindingIdentifier ''this''
      then serializeParameterTypesFrom env host s (Suc i) rest
      else
        (case (if p_dotDotDotToken parameter
               then serializeTypeNodeInContext env (serializationScope s)
                      (getRestParameterElementType host (p_type parameter)) s
               else serializeTypeNodeInContext env (serializationScope s)
                      (p_type parameter) s) of
           Inl e \<Rightarrow> Inl e
         | Inr (t, s1) \<Rightarrow>
             (case serializeParameterTypesFrom env host s1 (Suc i) rest of
                Inl e \<Rightarrow> Inl e
              | Inr (ts, s2) \<Rightarrow> Inr (t # ts, s2))))"

definition serializeParameterTypesOfNode ::
  "CompilerEnv \<Rightarrow> ClassHost \<Rightarrow> transform_state \<Rightarrow> DecoratedNode \<Rightarrow> ClassDeclaration
     \<Rightarrow> error + (expr \<times> transform_state)" where
  "serializeParameterTypesOfNode env host s node container =
     (let valueDeclaration =
            (case node of
               DecoratedClass c \<Rightarrow> getFirstConstructorWithBody c
             | DecoratedMember m \<Rightarrow>
                 if isFunctionLike (node_kind (d_node m)) \<and> \<not> nodeIsMissing (d_body m)
                 then Some m else None) in
      case valueDeclaration of
        None \<Rightarrow> Inr (ArrayLiteral [], s)
      | Some v \<Rightarrow>
          (case serializeParameterTypesFrom env host s 0
                  (getParametersOfDecoratedDeclaration host v container) of
             Inl e \<Rightarrow> Inl e
           | Inr (expressions, s1) \<Rightarrow> Inr (ArrayLiteral expressions, s1)))"

fun serializeReturnTypeOfNode ::
  "CompilerEnv \<Rightarrow> ClassHost \<Rightarrow> transform_state \<Rightarrow> DecoratedNode
     \<Rightarrow> error + (expr \<times> transform_state)" where
  "serializeReturnTypeOfNode env host s (DecoratedMember m) =
     (if isFunctionLike (node_kind (d_node m)) \<and> d_type m \<noteq> None
      then serializeTypeNodeInContext env (serializationScope s) (d_type m) s
      else if d_isAsyncFunction m then Inr (Identifier ''Promise'', s)
      else Inr (VoidZero, s))"
| "serializeReturnTypeOfNode env host s (DecoratedClass c) = Inr (VoidZero, s)"

text \<open>
  \<^verbatim>\<open>addTypeMetadata\<close>: the constant \<^verbatim>\<open>USE_NEW_TYPE_METADATA_FORMAT\<close> is false, so
  it is \<^verbatim>\<open>addOldTypeMetadata\<close>. Each \<^verbatim>\<open>createMetadataHelper\<close> requests the
  metadata helper, once its argument has been serialized.
\<close>

definition addOldTypeMetadata ::
  "CompilerEnv \<Rightarrow> ClassHost \<Rightarrow> transform_state \<Rightarrow> DecoratedNode \<Rightarrow> ClassDeclaration
     \<Rightarrow> expr list \<Rightarrow> error + (expr list \<times> transform_state)" where
  "addOldTypeMetadata env host s node container decoratorExpressions =
     (if emitDecoratorMetadata env then
        (case (if shouldAddTypeMetadata node
               then (case serializeTypeOfNode env host s node of
                       Inl e \<Rightarrow> Inl e
                     | Inr (t, s1) \<Rightarrow>
                         Inr (decoratorExpressions @ [MetadataHelper ''design:type'' t],
                              requestEmitHelper metadataHelper s1))
               else Inr (decoratorExpressions, s)) of
           Inl e \<Rightarrow> Inl e
         | Inr (d1, s1) \<Rightarrow>
             (case (if shouldAddParamTypesMetadata node
                    then (case serializeParameterTypesOfNode env host s1 node container of
                            Inl e \<Rightarrow> Inl e
                          | Inr (t, s2) \<Rightarrow>
                              Inr (d1 @ [MetadataHelper ''design:paramtypes'' t],
                                   requestEmitHelper metadataHelper s2))
                    else Inr (d1, s1)) of
                Inl e \<Rightarrow> Inl e
              | Inr (d2, s2) \<Rightarrow>
                  (if shouldAddReturnTypeMetadata node
                   then (case serializeReturnTypeOfNode env host s2 node of
                           Inl e \<Rightarrow> Inl e
                         | Inr (t, s3) \<Rightarrow>
                             Inr (d2 @ [MetadataHelper ''design:returntype'' t],
                                  requestEmitHelper metadataHelper s3))
                   else Inr (d2, s2))))
      else Inr (decoratorExpressions, s))"

definition addTypeMetadata ::
  "CompilerEnv \<Rightarrow> ClassHost \<Rightarrow> transform_state \<Rightarrow> DecoratedNode \<Rightarrow> ClassDeclaration
     \<Rightarrow> expr list \<Rightarrow> error + (expr list \<times> transform_state)" where
  "addTypeMetadata = addOldTypeMetadata"

subsubsection \<open>Decorate calls\<close>

definition transformDecorator :: "ClassHost \<Rightarrow> expr \<Rightarrow> transform_state
     \<Rightarrow> error + (expr \<times> transform_state)" where
  "transformDecorator host decorator s = visitExpression host decorator s"

text \<open>\<^verbatim>\<open>map(allDecorators.decorators, transformDecorator)\<close>, each visit from the state the last left.\<close>

fun transformDecorators ::
  "ClassHost \<Rightarrow> expr list \<Rightarrow> transform_state \<Rightarrow> error + (expr list \<times> transform_state)" where
  "transformDecorators host [] s = Inr ([], s)"
| "transformDecorators host (decorator # decorators) s =
     (case transformDecorator host decorator s of
        Inl e \<Rightarrow> Inl e
      | Inr (expression, s1) \<Rightarrow>
          (case transformDecorators host decorators s1 of
             Inl e \<Rightarrow> Inl e
           | Inr (expressions, s2) \<Rightarrow> Inr (expression # expressions, s2)))"

text \<open>
  The loop of \<^verbatim>\<open>transformDecoratorsOfParameter\<close>: the decorator is visited, then
  \<^verbatim>\<open>createParamHelper\<close> requests the helper.
\<close>

fun transformDecoratorsOfParameterFrom ::
  "ClassHost \<Rightarrow> nat \<Rightarrow> expr list \<Rightarrow> transform_state
     \<Rightarrow> error + (expr list \<times> transform_state)" where
  "transformDecoratorsOfParameterFrom host parameterOffset [] s = Inr ([], s)"
| "transformDecoratorsOfParameterFrom host parameterOffset (decorator # decorators) s =
     (case transformDecorator host decorator s of
        Inl e \<Rightarrow> Inl e
      | Inr (expression, s1) \<Rightarrow>
          (case transformDecoratorsOfParameterFrom host parameterOffset decorators
                  (requestEmitHelper paramHelper s1) of
             Inl e \<Rightarrow> Inl e
           | Inr (expressions, s2) \<Rightarrow>
               Inr (ParamHelper expression parameterOffset # expressions, s2)))"

definition transformDecoratorsOfParameter ::
  "ClassHost \<Rightarrow> expr list option \<Rightarrow> nat \<Rightarrow> transform_state
     \<Rightarrow> error + (expr list option \<times> transform_state)" where
  "transformDecoratorsOfParameter host decorators parameterOffset s =
     (case decorators of
        None \<Rightarrow> Inr (None, s)
      | Some ds \<Rightarrow>
          (case transformDecoratorsOfParameterFrom host parameterOffset ds s of
             Inl e \<Rightarrow> Inl e
           | Inr (expressions, s1) \<Rightarrow> Inr (Some expressions, s1)))"

text \<open>
  \<^verbatim>\<open>flatMap(allDecorators.parameters, transformDecoratorsOfParameter)\<close> from index
  \<open>i\<close> on: each slot of the array is passed with its index, and the results that are
  undefined are skipped.
\<close>

fun transformDecoratorsOfParametersFrom ::
  "ClassHost \<Rightarrow> nat \<Rightarrow> (expr list option) list \<Rightarrow> transform_state
     \<Rightarrow> error + (expr list \<times> transform_state)" where
  "transformDecoratorsOfParametersFrom host i [] s = Inr ([], s)"
| "transformDecoratorsOfParametersFrom host i (decorators # rest) s =
     (case transformDecoratorsOfParameter host decorators i s of
        Inl e \<Rightarrow> Inl e
      | Inr (expressions, s1) \<Rightarrow>
          (case transformDecoratorsOfParametersFrom host (Suc i) rest s1 of
             Inl e \<Rightarrow> Inl e
           | Inr (others, s2) \<Rightarrow>
               Inr ((case expressions of None \<Rightarrow> [] | Some es \<Rightarrow> es) @ others, s2)))"

text \<open>\<^verbatim>\<open>transformAllDecoratorsOfDeclaration\<close>.\<close>

definition transformAllDecoratorsOfDeclaration ::
  "CompilerEnv \<Rightarrow> ClassHost \<Rightarrow> transform_state \<Rightarrow> DecoratedNode \<Rightarrow> ClassDeclaration
     \<Rightarrow> AllDecorators option \<Rightarrow> error + (expr list option \<times> transform_state)" where
  "transformAllDecoratorsOfDeclaration env host s node container allDecorators =
     (case allDecorators of
        None \<Rightarrow> Inr (None, s)
      | Some a \<Rightarrow>
          (case (case ad_decorators a of
                   None \<Rightarrow> Inr ([], s)
                 | Some ds \<Rightarrow> transformDecorators host ds s) of
             Inl e \<Rightarrow> Inl e
           | Inr (d1, s1) \<Rightarrow>
               (case (case ad_parameters a of
                        None \<Rightarrow> Inr ([], s1)
                      | Some ps \<Rightarrow> transformDecoratorsOfParametersFrom host 0 ps s1) of
                  Inl e \<Rightarrow> Inl e
                | Inr (d2, s2) \<Rightarrow>
                    (case addTypeMetadata env host s2 node container (d1 @ d2) of
                       Inl e \<Rightarrow> Inl e
                     | Inr (decoratorExpressions, s3) \<Rightarrow>
                         Inr (Some decoratorExpressions, s3)))))"

definition getClassPrototype :: "ClassDeclaration \<Rightarrow> expr" where
  "getClassPrototype node =
     PropertyAccess (getDeclarationName (c_node node)) (Identifier ''prototype'')"

definition getClassMemberPrefix :: "ClassDeclaration \<Rightarrow> Declaration \<Rightarrow> expr" where
  "getClassMemberPrefix node member =
     (if isStatic member then getDeclarationName (c_node node) else getClassPrototype node)"

text \<open>
  \<^verbatim>\<open>generateClassElementDecorationExpression\<close>. The name of the member is read
  with \<^verbatim>\<open>member.name!\<close>; a member without a name makes the read of its kind fail.
  \<^verbatim>\<open>createDecorateHelper\<close> requests the helper.
\<close>

definition generateClassElementDecorationExpression ::
  "CompilerEnv \<Rightarrow> ClassHost \<Rightarrow> transform_state \<Rightarrow> ClassDeclaration \<Rightarrow> Declaration
     \<Rightarrow> error + (expr option \<times> transform_state)" where
  "generateClassElementDecorationExpression env host s node member =
     (let allDecorators = getAllDecoratorsOfClassElement host node member in
      case transformAllDecoratorsOfDeclaration env host s (DecoratedMember member) node
             allDecorators of
        Inl e \<Rightarrow> Inl e
      | Inr (transformed, s1) \<Rightarrow>
          (case transformed of
             None \<Rightarrow> Inr (None, s1)
           | Some decoratorExpressions \<Rightarrow>
               (case d_name member of
                  None \<Rightarrow> Inl TypeErrorUndefined
                | Some name \<Rightarrow>
                    (let prefix = getClassMemberPrefix node member;
                         memberName =
                           getExpressionForPropertyName (isSimpleInlineableExpression host)
                             name True;
                         descriptor =
                           (if languageVersion env > ES3
                            then (if node_kind (d_node member) = SK_PropertyDeclaration
                                  then Some VoidZero else Some NullLiteral)
                            else None) in
                     Inr (Some (DecorateHelper decoratorExpressions prefix (Some memberName)
                                  descriptor),
                          requestEmitHelper decorateHelper s1)))))"

text \<open>The loop of \<^verbatim>\<open>generateClassElementDecorationExpressions\<close> over the members.\<close>

fun generateClassElementDecorationExpressionsFrom ::
  "CompilerEnv \<Rightarrow> ClassHost \<Rightarrow> transform_state \<Rightarrow> ClassDeclaration \<Rightarrow> Declaration list
     \<Rightarrow> error + (expr list \<times> transform_state)" where
  "generateClassElementDecorationExpressionsFrom env host s node [] = Inr ([], s)"
| "generateClassElementDecorationExpressionsFrom env host s node (member # members) =
     (case generateClassElementDecorationExpression env host s node member of
        Inl e \<Rightarrow> Inl e
      | Inr (expression, s1) \<Rightarrow>
          (case generateClassElementDecorationExpressionsFrom env host s1 node members of
             Inl e \<Rightarrow> Inl e
           | Inr (expressions, s2) \<Rightarrow>
               Inr ((case expression of None \<Rightarrow> expressions | Some x \<Rightarrow> x # expressions),
                    s2)))"

definition generateClassElementDecorationExpressions ::
  "CompilerEnv \<Rightarrow> ClassHost \<Rightarrow> transform_state \<Rightarrow> ClassDeclaration \<Rightarrow> bool
     \<Rightarrow> error + (expr list \<times> transform_state)" where
  "generateClassElementDecorationExpressions env host s node static =
     generateClassElementDecorationExpressionsFrom env host s node
       (getDecoratedClassElements node static)"

definition expressionToStatement :: "expr \<Rightarrow> statement" where
  "expressionToStatement expression = ExpressionStatement expression"

definition addClassElementDecorationStatements ::
  "CompilerEnv \<Rightarrow> ClassHost \<Rightarrow> transform_state \<Rightarrow> statement list \<Rightarrow> ClassDeclaration \<Rightarrow> bool
     \<Rightarrow> error + (statement list \<times> transform_state)" where
  "addClassElementDecorationStatements env host s statements node static =
     (case generateClassElementDecorationExpressions env host s node static of
        Inl e \<Rightarrow> Inl e
      | Inr (expressions, s1) \<Rightarrow>
          Inr (statements @ map expressionToStatement expressions, s1))"

definition classLocalName :: "CompilerEnv \<Rightarrow> ClassDeclaration \<Rightarrow> expr" where
  "classLocalName env node =
     (if languageVersion env \<le> ES2015 then getInternalName (c_node node)
      else getLocalName (c_node node))"

text \<open>
  \<^verbatim>\<open>generateConstructorDecorationExpression\<close>: the alias is looked up once the
  decorators have been transformed.
\<close>

definition generateConstructorDecorationExpression ::
  "CompilerEnv \<Rightarrow> ClassHost \<Rightarrow> transform_state \<Rightarrow> ClassDeclaration
     \<Rightarrow> error + (expr option \<times> transform_state)" where
  "generateConstructorDecorationExpression env host s node =
     (let allDecorators = getAllDecoratorsOfConstructor node in
      case transformAllDecoratorsOfDeclaration env host s (DecoratedClass node) node
             allDecorators of
        Inl e \<Rightarrow> Inl e
      | Inr (transformed, s1) \<Rightarrow>
          (case transformed of
             None \<Rightarrow> Inr (None, s1)
           | Some decoratorExpressions \<Rightarrow>
               (let classAlias = (case classAliases s1 of
                                    None \<Rightarrow> None
                                  | Some aliases \<Rightarrow> map_of aliases (node_id (c_node node)));
                    localName = classLocalName env node;
                    decorate = DecorateHelper decoratorExpressions localName None None in
                Inr (Some (Assignment localName
                             (case classAlias of
                                Some a \<Rightarrow> Assignment a decorate
                              | None \<Rightarrow> decorate)),
                     requestEmitHelper decorateHelper s1))))"

definition addConstructorDecorationStatement ::
  "CompilerEnv \<Rightarrow> ClassHost \<Rightarrow> transform_state \<Rightarrow> statement list \<Rightarrow> ClassDeclaration
     \<Rightarrow> error + (statement list \<times> transform_state)" where
  "addConstructorDecorationStatement env host s statements node =
     (case generateConstructorDecorationExpression env host s node of
        Inl e \<Rightarrow> Inl e
      | Inr (expression, s1) \<Rightarrow>
          (case expression of
             None \<Rightarrow> Inr (statements, s1)
           | Some x \<Rightarrow> Inr (statements @ [ExpressionStatement x], s1)))"

subsubsection \<open>The class declaration\<close>

definition enableSubstitutionForClassAliases :: "transform_state \<Rightarrow> transform_state" where
  "enableSubstitutionForClassAliases s =
     (if ClassAliases \<notin> enabledSubstitutions s
      then s\<lparr>enabledSubstitutions := insert ClassAliases (enabledSubstitutions s),
             contextSubstitutionKinds := insert SK_Identifier (contextSubstitutionKinds s),
             classAliases := Some []\<rparr>
      else s)"

text \<open>
  \<^verbatim>\<open>getClassAliasIfNeeded\<close>. The name of a class declaration is an identifier of the
  source, never a generated one. The assignment to \<^verbatim>\<open>classAliases[id]\<close> needs the
  array, which exists once the substitution has been enabled.
\<close>

definition getClassAliasIfNeeded ::
  "ClassHost \<Rightarrow> transform_state \<Rightarrow> ClassDeclaration
     \<Rightarrow> error + (expr option \<times> transform_state)" where
  "getClassAliasIfNeeded host s node =
     (if classWithConstructorReference host (node_id (c_node node)) then
        (let s1 = enableSubstitutionForClassAliases s;
             classAlias = UniqueName (case node_name (c_node node) of
                                        Some x \<Rightarrow> x | None \<Rightarrow> ''default'') in
         case classAliases s1 of
           None \<Rightarrow> Inl TypeErrorUndefined
         | Some aliases \<Rightarrow>
             Inr (Some classAlias,
                  hoistVariableDeclaration classAlias
                    (s1\<lparr>classAliases := Some ((node_id (c_node node), classAlias) # aliases)\<rparr>)))
      else Inr (None, s))"

text \<open>
  \<^verbatim>\<open>transformClassMembers\<close>: the list it builds, the property declarations for the
  parameter properties and then the visited members, is part of the class node; what
  it does to the state is the visit of the members.
\<close>

definition transformClassMembers ::
  "ClassHost \<Rightarrow> ClassDeclaration \<Rightarrow> transform_state \<Rightarrow> error + transform_state" where
  "transformClassMembers host node s = visitClassElements host (c_members node) s"

definition createClassDeclarationHeadWithoutDecorators ::
  "ClassHost \<Rightarrow> transform_state \<Rightarrow> ClassDeclaration \<Rightarrow> expr option \<Rightarrow> ClassFacts set
     \<Rightarrow> error + (statement \<times> transform_state)" where
  "createClassDeclarationHeadWithoutDecorators host s node name facts =
     (let modifiers =
            (if UseImmediatelyInvokedFunctionExpression \<notin> facts
             then List.map_filter (modifierVisitor s) (node_modifiers (c_node node))
             else []) in
      case visitHeritageClauses host (c_heritageClauses node) s of
        Inl e \<Rightarrow> Inl e
      | Inr s1 \<Rightarrow>
          (case transformClassMembers host node s1 of
             Inl e \<Rightarrow> Inl e
           | Inr s2 \<Rightarrow>
               Inr (ClassDeclarationStatement modifiers name (node_id (c_node node)), s2)))"

definition createClassDeclarationHeadWithDecorators ::
  "CompilerEnv \<Rightarrow> ClassHost \<Rightarrow> transform_state \<Rightarrow> ClassDeclaration \<Rightarrow> expr option
     \<Rightarrow> error + (statement \<times> transform_state)" where
  "createClassDeclarationHeadWithDecorators env host s node name =
     (case getClassAliasIfNeeded host s node of
        Inl e \<Rightarrow> Inl e
      | Inr (classAlias, s1) \<Rightarrow>
          (let declName = classLocalName env node in
           case visitHeritageClauses host (c_heritageClauses node) s1 of
             Inl e \<Rightarrow> Inl e
           | Inr s2 \<Rightarrow>
               (case transformClassMembers host node s2 of
                  Inl e \<Rightarrow> Inl e
                | Inr s3 \<Rightarrow>
                    (let classExpression = ClassExpression name (node_id (c_node node)) in
                     Inr (VariableStatement [] NodeFlags_Let
                            [(declName,
                              Some (case classAlias of
                                      Some a \<Rightarrow> Assignment a classExpression
                                    | None \<Rightarrow> classExpression))],
                          s3)))))"

text \<open>
  \<^verbatim>\<open>visitClassDeclaration\<close>. The result of \<^verbatim>\<open>visitEachChild\<close> is the class with
  its children visited, named here by the node id.
\<close>

definition visitClassDeclaration ::
  "CompilerEnv \<Rightarrow> ClassHost \<Rightarrow> transform_state \<Rightarrow> ClassDeclaration
     \<Rightarrow> error + (statement list \<times> transform_state)" where
  "visitClassDeclaration env host s node =
     (if \<not> isClassLikeDeclarationWithTypeScriptSyntax node
         \<and> \<not> (currentNamespace s \<noteq> None \<and> hasSyntacticModifier (c_node node) Export)
      then (case visitEachChild host node s of
              Inl e \<Rightarrow> Inl e
            | Inr s1 \<Rightarrow> Inr ([VisitEachChild (node_id (c_node node))], s1))
      else
        (let staticProperties = getProperties node True True;
             facts = getClassFacts env s node staticProperties;
             s0 = (if UseImmediatelyInvokedFunctionExpression \<in> facts
                   then startLexicalEnvironment s else s);
             name = (case node_name (c_node node) of
                       Some x \<Rightarrow> Some (Identifier x)
                     | None \<Rightarrow> if facts \<inter> NeedsName \<noteq> {}
                               then Some (GeneratedNameForNode (node_id (c_node node)))
                               else None) in
         case (if HasConstructorDecorators \<in> facts
               then createClassDeclarationHeadWithDecorators env host s0 node name
               else createClassDeclarationHeadWithoutDecorators host s0 node name facts) of
           Inl e \<Rightarrow> Inl e
         | Inr (classStatement, s1) \<Rightarrow>
             (case addClassElementDecorationStatements env host s1 [classStatement] node False of
                Inl e \<Rightarrow> Inl e
              | Inr (statements1, s2) \<Rightarrow>
             (case addClassElementDecorationStatements env host s2 statements1 node True of
                Inl e \<Rightarrow> Inl e
              | Inr (statements2, s3) \<Rightarrow>
             (case addConstructorDecorationStatement env host s3 statements2 node of
                Inl e \<Rightarrow> Inl e
              | Inr (statements3, s4) \<Rightarrow>
                  (let wrapped =
                         (if UseImmediatelyInvokedFunctionExpression \<in> facts
                          then (case endLexicalEnvironment s4 of
                                  (declarations, s5) \<Rightarrow>
                                    ([VariableStatement [] NodeFlags_None
                                        [(getLocalName (c_node node),
                                          Some (ImmediatelyInvokedArrowFunction
                                                  (insertStatementsAfterStandardPrologue
                                                     (statements3 @
                                                        [ReturnStatement
                                                           (PartiallyEmitted
                                                              (getInternalName (c_node node)))])
                                                     declarations)))]],
                                     s5))
                          else (statements3, s4));
                       statements4 = fst wrapped;
                       s5 = snd wrapped;
                       statements5 =
                         (if IsExportOfNamespace \<in> facts
                          then addExportMemberAssignment s5 statements4 (c_node node)
                          else if UseImmediatelyInvokedFunctionExpression \<in> facts
                                  \<or> HasConstructorDecorators \<in> facts
                          then (if IsDefaultExternalExport \<in> facts
                                then statements4 @ [ExportDefault (getLocalName (c_node node))]
                                else if IsNamedExternalExport \<in> facts
                                then statements4 @
                                       [ExternalModuleExport (getLocalName (c_node node))]
                                else statements4)
                          else statements4)
                   in Inr (if length statements5 > 1
                           then statements5 @
                                  [EndOfDeclarationMarker (node_id (c_node node))]
                           else statements5,
                           s5)))))))"

subsection \<open>Example inputs\<close>

definition ex_sourceFileNode :: node where
  "ex_sourceFileNode = \<lparr>node_id = 0, node_kind = SK_SourceFile, node_modifiers = [],
     node_name = None, node_transformFlags = [ContainsTypeScript]\<rparr>"

definition ex_blockNode :: node where
  "ex_blockNode = \<lparr>node_id = 5, node_kind = SK_Block, node_modifiers = [],
     node_name = None, node_transformFlags = []\<rparr>"

definition ex_namespaceNode :: node where
  "ex_namespaceNode = \<lparr>node_id = 3, node_kind = SK_ModuleDeclaration, node_modifiers = [],
     node_name = Some ''N'', node_transformFlags = [ContainsTypeScript]\<rparr>"

definition ex_classNode :: node where
  "ex_classNode = \<lparr>node_id = 7, node_kind = SK_ClassDeclaration, node_modifiers = [],
     node_name = Some ''C'', node_transformFlags = []\<rparr>"

text \<open>
  The state while the statements of a file are visited, after a namespace \<^verbatim>\<open>N\<close> has
  been recorded as the first declaration of its name.
\<close>

definition ex_state :: transform_state where
  "ex_state = \<lparr>currentSourceFile = Some ex_sourceFileNode, currentNamespace = None,
     currentNamespaceContainerName = None, currentLexicalScope = Some ex_sourceFileNode,
     currentNameScope = None,
     currentScopeFirstDeclarationsOfName = Some [(''N'', ex_namespaceNode)],
     currentClassHasParameterProperties = None, enabledSubstitutions = {},
     classAliases = None, contextSubstitutionKinds = {}, contextEmitHelpers = [],
     contextLexicalEnvironment = [], contextLexicalEnvironmentStack = []\<rparr>"

text \<open>A visit that changes nothing.\<close>

definition ex_visit :: "node \<Rightarrow> transform_state \<Rightarrow> error + (unit \<times> transform_state)" where
  "ex_visit n s = Inr ((), s)"

definition ex_declarationFile :: SourceFile where
  "ex_declarationFile = \<lparr>sf_node = ex_sourceFileNode, isDeclarationFile = True,
     sf_statements = [SourceStatement 1], sf_emitHelpers = []\<rparr>"

text \<open>Inside the body of \<^verbatim>\<open>enum E { A = 1, B = "b", C = f(), D }\<close>, container \<^verbatim>\<open>E\<close>.\<close>

definition ex_enumState :: transform_state where
  "ex_enumState = ex_state\<lparr>currentNamespaceContainerName := Some (GeneratedNameForNode 10)\<rparr>"

definition ex_memberA :: EnumMember where
  "ex_memberA = \<lparr>em_node = \<lparr>node_id = 11, node_kind = SK_Other 0, node_modifiers = [],
       node_name = Some ''A'', node_transformFlags = []\<rparr>,
     em_name = IdentifierName ''A'', em_initializer = Some (SourceExpr 21)\<rparr>"

definition ex_memberD :: EnumMember where
  "ex_memberD = \<lparr>em_node = \<lparr>node_id = 14, node_kind = SK_Other 0, node_modifiers = [],
       node_name = Some ''D'', node_transformFlags = []\<rparr>,
     em_name = IdentifierName ''D'', em_initializer = None\<rparr>"

definition ex_getConstantValue :: "nat \<Rightarrow> ConstantValue option" where
  "ex_getConstantValue i =
     (if i = 11 then Some (ConstantNumber 1)
      else if i = 12 then Some (ConstantString ''b'') else None)"

definition ex_visitor :: expr_visitor where
  "ex_visitor e s = Inr (e, s)"

definition ex_env :: CompilerEnv where
  "ex_env = \<lparr>strictNullChecks = False, languageVersion = ES5, moduleKind = ModuleKind_CommonJS,
     emitDecoratorMetadata = True, preserveConstEnums = False, isolatedModules = False,
     getTypeReferenceSerializationKind = (\<lambda>n s. Unknown)\<rparr>"

subsection \<open>Predicates of the properties\<close>








text \<open>More example inputs.\<close>

definition ex_memberVisitors :: MemberVisitors where
  "ex_memberVisitors = \<lparr>visitParameterList = (\<lambda>ps. ps), visitFunctionBody = (\<lambda>b. b),
     visitPropertyNameOfClassElement = d_name, transformConstructorBody = (\<lambda>n. EmptyBlock)\<rparr>"

definition ex_bodylessGetter :: Declaration where
  "ex_bodylessGetter = \<lparr>d_node = \<lparr>node_id = 31, node_kind = SK_GetAccessor, node_modifiers = [Public],
       node_name = None, node_transformFlags = [ContainsTypeScript]\<rparr>,
     d_name = Some (IdentifierName ''x''), d_decorators = None, d_parameters = [],
     d_type = Some NumberKeyword, d_body = None, d_initializer = None,
     d_nodeOrChildIsDecorated = False, d_isAsyncFunction = False\<rparr>"

definition ex_abstractGetter :: Declaration where
  "ex_abstractGetter = \<lparr>d_node = \<lparr>node_id = 33, node_kind = SK_GetAccessor,
       node_modifiers = [Abstract], node_name = None,
       node_transformFlags = [ContainsTypeScript]\<rparr>,
     d_name = Some (IdentifierName ''x''), d_decorators = None, d_parameters = [],
     d_type = Some NumberKeyword, d_body = None, d_initializer = None,
     d_nodeOrChildIsDecorated = False, d_isAsyncFunction = False\<rparr>"

definition ex_bodylessSetter :: Declaration where
  "ex_bodylessSetter = \<lparr>d_node = \<lparr>node_id = 34, node_kind = SK_SetAccessor,
       node_modifiers = [Public], node_name = None,
       node_transformFlags = [ContainsTypeScript]\<rparr>,
     d_name = Some (IdentifierName ''x''), d_decorators = None,
     d_parameters = [\<lparr>p_name = BindingIdentifier ''v'', p_decorators = None,
                      p_modifiers = [], p_dotDotDotToken = False, p_type = Some NumberKeyword\<rparr>],
     d_type = None, d_body = None, d_initializer = None,
     d_nodeOrChildIsDecorated = False, d_isAsyncFunction = False\<rparr>"

definition ex_abstractMethod :: Declaration where
  "ex_abstractMethod = \<lparr>d_node = \<lparr>node_id = 32, node_kind = SK_MethodDeclaration,
       node_modifiers = [Abstract], node_name = None,
       node_transformFlags = [ContainsTypeScript]\<rparr>,
     d_name = Some (IdentifierName ''m''), d_decorators = None, d_parameters = [],
     d_type = None, d_body = None, d_initializer = None,
     d_nodeOrChildIsDecorated = False, d_isAsyncFunction = False\<rparr>"

definition ex_freshState :: transform_state where
  "ex_freshState = ex_state\<lparr>currentScopeFirstDeclarationsOfName := None\<rparr>"











subsection \<open>Predicates and example inputs for classes\<close>

text \<open>
  The statements that the lowering of a class emits: the call of the decorate helper
  for a member, on the prototype or on the class; the members that get such a call;
  the statement that applies the decorators of the constructor; and the binding of the
  class, a class declaration or a \<^verbatim>\<open>let\<close> of a class expression.
\<close>

definition isMemberDecorateCall :: "ClassDeclaration \<Rightarrow> Declaration \<Rightarrow> statement \<Rightarrow> bool" where
  "isMemberDecorateCall node member st =
     (case st of
        ExpressionStatement e \<Rightarrow>
          (case e of
             DecorateHelper decorators target name descriptor \<Rightarrow>
               target = getClassMemberPrefix node member \<and> name \<noteq> None
           | _ \<Rightarrow> False)
      | _ \<Rightarrow> False)"

definition membersWithDecorateCall :: "ClassHost \<Rightarrow> ClassDeclaration \<Rightarrow> bool \<Rightarrow> Declaration list" where
  "membersWithDecorateCall host node static =
     filter (\<lambda>m. getAllDecoratorsOfClassElement host node m \<noteq> None)
       (getDecoratedClassElements node static)"

definition isConstructorDecorateCall :: "CompilerEnv \<Rightarrow> ClassDeclaration \<Rightarrow> expr \<Rightarrow> bool" where
  "isConstructorDecorateCall env node e =
     (case e of
        DecorateHelper decorators target name descriptor \<Rightarrow>
          target = classLocalName env node \<and> name = None \<and> descriptor = None
      | _ \<Rightarrow> False)"

definition isConstructorDecorateStatement ::
  "CompilerEnv \<Rightarrow> transform_state \<Rightarrow> ClassDeclaration \<Rightarrow> statement \<Rightarrow> bool" where
  "isConstructorDecorateStatement env s node st =
     (case st of
        ExpressionStatement e \<Rightarrow>
          (case e of
             Assignment target assigned \<Rightarrow>
               target = classLocalName env node
               \<and> (case (case classAliases s of
                           None \<Rightarrow> None
                         | Some aliases \<Rightarrow> map_of aliases (node_id (c_node node))) of
                     None \<Rightarrow> isConstructorDecorateCall env node assigned
                   | Some a \<Rightarrow>
                       (case assigned of
                          Assignment target' call \<Rightarrow>
                            target' = a \<and> isConstructorDecorateCall env node call
                        | _ \<Rightarrow> False))
           | _ \<Rightarrow> False)
      | _ \<Rightarrow> False)"

definition isClassExpressionOf :: "ClassDeclaration \<Rightarrow> expr \<Rightarrow> bool" where
  "isClassExpressionOf node e =
     (case e of ClassExpression name i \<Rightarrow> i = node_id (c_node node) | _ \<Rightarrow> False)"

definition isClassBinding :: "ClassDeclaration \<Rightarrow> statement \<Rightarrow> bool" where
  "isClassBinding node st =
     (case st of
        ClassDeclarationStatement modifiers name i \<Rightarrow> i = node_id (c_node node)
      | VariableStatement modifiers flags declarations \<Rightarrow>
          flags = NodeFlags_Let
          \<and> (case declarations of
                [(declName, Some initializer)] \<Rightarrow>
                  isClassExpressionOf node initializer
                  \<or> (case initializer of
                        Assignment a e \<Rightarrow> isClassExpressionOf node e
                      | _ \<Rightarrow> False)
              | _ \<Rightarrow> False)
      | _ \<Rightarrow> False)"

definition isDecorateExpression :: "expr \<Rightarrow> bool" where
  "isDecorateExpression e = (case e of DecorateHelper a b c d \<Rightarrow> True | _ \<Rightarrow> False)"

definition isDecorateStatement :: "statement \<Rightarrow> bool" where
  "isDecorateStatement st =
     (case st of
        ExpressionStatement e \<Rightarrow>
          (case e of
             DecorateHelper a b c d \<Rightarrow> True
           | Assignment l r \<Rightarrow>
               (case r of
                  DecorateHelper a b c d \<Rightarrow> True
                | Assignment l' r' \<Rightarrow> isDecorateExpression r'
                | _ \<Rightarrow> False)
           | _ \<Rightarrow> False)
      | _ \<Rightarrow> False)"

text \<open>The alias of a class in the sparse array \<^verbatim>\<open>classAliases\<close>, by the node id.\<close>

definition classAliasOf :: "transform_state \<Rightarrow> nat \<Rightarrow> expr option" where
  "classAliasOf s i =
     (case classAliases s of None \<Rightarrow> None | Some aliases \<Rightarrow> map_of aliases i)"

text \<open>
  The visits of the children of a class leave the alias of that class as they found it.
  The transformer does so on the children of the class with node id \<open>i\<close>: an alias is
  assigned by \<^verbatim>\<open>getClassAliasIfNeeded\<close> only, under the id of the class it is
  called for, and the array is replaced only when the substitution is enabled for the
  first time, when it holds nothing yet.
\<close>

definition visitsKeepClassAlias :: "ClassHost \<Rightarrow> nat \<Rightarrow> bool" where
  "visitsKeepClassAlias host i =
     ((\<forall>e s e' s'. visitExpression host e s = Inr (e', s')
          \<longrightarrow> classAliasOf s' i = classAliasOf s i)
      \<and> (\<forall>clauses s s'. visitHeritageClauses host clauses s = Inr s'
          \<longrightarrow> classAliasOf s' i = classAliasOf s i)
      \<and> (\<forall>members s s'. visitClassElements host members s = Inr s'
          \<longrightarrow> classAliasOf s' i = classAliasOf s i)
      \<and> (\<forall>c s s'. visitEachChild host c s = Inr s'
          \<longrightarrow> classAliasOf s' i = classAliasOf s i))"

text \<open>The class is not left to \<^verbatim>\<open>visitEachChild\<close>.\<close>

definition takesSlowPath :: "transform_state \<Rightarrow> ClassDeclaration \<Rightarrow> bool" where
  "takesSlowPath s node =
     (isClassLikeDeclarationWithTypeScriptSyntax node
      \<or> (currentNamespace s \<noteq> None \<and> hasSyntacticModifier (c_node node) Export))"

text \<open>
  A class with decorators: the target is ESNext, with ES modules, so that no wrapper
  is needed.
\<close>

definition ex_env2015 :: CompilerEnv where
  "ex_env2015 = ex_env\<lparr>languageVersion := ESNext, moduleKind := ModuleKind_ESNext\<rparr>"

text \<open>
  Members of \<^verbatim>\<open>@d0 class C { @d1 get x(): number {..} set x(@d2 v: number) {..}
  @d3 static y; @d4 m() {..} }\<close>, and the answers of the resolver for the accessors.
\<close>

definition ex_getter :: Declaration where
  "ex_getter = \<lparr>d_node = \<lparr>node_id = 51, node_kind = SK_GetAccessor, node_modifiers = [],
       node_name = None, node_transformFlags = [ContainsTypeScript, ContainsTypeScriptClassSyntax]\<rparr>,
     d_name = Some (IdentifierName ''x''), d_decorators = Some [SourceExpr 61], d_parameters = [],
     d_type = Some NumberKeyword, d_body = Some (Body 71), d_initializer = None,
     d_nodeOrChildIsDecorated = True, d_isAsyncFunction = False\<rparr>"

definition ex_setter :: Declaration where
  "ex_setter = \<lparr>d_node = \<lparr>node_id = 52, node_kind = SK_SetAccessor, node_modifiers = [],
       node_name = None, node_transformFlags = [ContainsTypeScript, ContainsTypeScriptClassSyntax]\<rparr>,
     d_name = Some (IdentifierName ''x''), d_decorators = None,
     d_parameters = [\<lparr>p_name = BindingIdentifier ''v'', p_decorators = Some [SourceExpr 62],
                      p_modifiers = [], p_dotDotDotToken = False, p_type = Some NumberKeyword\<rparr>],
     d_type = None, d_body = Some (Body 72), d_initializer = None,
     d_nodeOrChildIsDecorated = True, d_isAsyncFunction = False\<rparr>"

definition ex_staticProperty :: Declaration where
  "ex_staticProperty = \<lparr>d_node = \<lparr>node_id = 53, node_kind = SK_PropertyDeclaration,
       node_modifiers = [Static], node_name = None,
       node_transformFlags = [ContainsTypeScript, ContainsTypeScriptClassSyntax]\<rparr>,
     d_name = Some (IdentifierName ''y''), d_decorators = Some [SourceExpr 63], d_parameters = [],
     d_type = None, d_body = None, d_initializer = None,
     d_nodeOrChildIsDecorated = True, d_isAsyncFunction = False\<rparr>"

definition ex_method :: Declaration where
  "ex_method = \<lparr>d_node = \<lparr>node_id = 54, node_kind = SK_MethodDeclaration,
       node_modifiers = [], node_name = None,
       node_transformFlags = [ContainsTypeScript, ContainsTypeScriptClassSyntax]\<rparr>,
     d_name = Some (IdentifierName ''m''), d_decorators = Some [SourceExpr 64], d_parameters = [],
     d_type = None, d_body = Some (Body 74), d_initializer = None,
     d_nodeOrChildIsDecorated = True, d_isAsyncFunction = False\<rparr>"

definition ex_classHost :: ClassHost where
  "ex_classHost = \<lparr>visitExpression = (\<lambda>e s. Inr (e, s)),
     visitHeritageClauses = (\<lambda>clauses s. Inr s),
     visitClassElements = (\<lambda>members s. Inr s),
     visitEachChild = (\<lambda>c s. Inr s),
     getAllAccessorDeclarations = (\<lambda>members accessor.
        \<lparr>firstAccessor = ex_getter, secondAccessor = Some ex_setter,
         getAccessor = Some ex_getter, setAccessor = Some ex_setter\<rparr>),
     getAccessorTypeNode = (\<lambda>accessor. Some NumberKeyword),
     getRestParameterElementType = (\<lambda>t. None),
     isSimpleInlineableExpression = (\<lambda>e. False),
     classWithConstructorReference = (\<lambda>i. False)\<rparr>"

definition ex_decoratedClass :: ClassDeclaration where
  "ex_decoratedClass = \<lparr>c_node = ex_classNode\<lparr>node_transformFlags := [ContainsTypeScript]\<rparr>,
     c_decorators = Some [SourceExpr 60], c_hasTypeParameters = False, c_heritageClauses = [],
     c_members = [ex_staticProperty, ex_method], c_hasNonNullBase = False,
     c_classOrConstructorParameterIsDecorated = True, c_childIsDecorated = True\<rparr>"

definition ex_accessorClass :: ClassDeclaration where
  "ex_accessorClass = ex_decoratedClass\<lparr>c_members := [ex_getter, ex_setter]\<rparr>"

text \<open>The resolver marks the class \<^verbatim>\<open>C\<close> as referring to its own constructor.\<close>

definition ex_selfReferenceHost :: ClassHost where
  "ex_selfReferenceHost = ex_classHost\<lparr>classWithConstructorReference := (\<lambda>i. i = 7)\<rparr>"

text \<open>\<^verbatim>\<open>class C { static z = ...; }\<close>, which needs the wrapper below ES2015.\<close>

definition ex_initializedStatic :: Declaration where
  "ex_initializedStatic = \<lparr>d_node = \<lparr>node_id = 55, node_kind = SK_PropertyDeclaration,
       node_modifiers = [Static], node_name = None,
       node_transformFlags = [ContainsTypeScriptClassSyntax]\<rparr>,
     d_name = Some (IdentifierName ''z''), d_decorators = None, d_parameters = [],
     d_type = None, d_body = None, d_initializer = Some (SourceExpr 65),
     d_nodeOrChildIsDecorated = False, d_isAsyncFunction = False\<rparr>"

definition ex_staticClass :: ClassDeclaration where
  "ex_staticClass = \<lparr>c_node = ex_classNode\<lparr>node_transformFlags := [ContainsTypeScript]\<rparr>,
     c_decorators = None, c_hasTypeParameters = False, c_heritageClauses = [],
     c_members = [ex_initializedStatic], c_hasNonNullBase = False,
     c_classOrConstructorParameterIsDecorated = False, c_childIsDecorated = False\<rparr>"

text \<open>What the lowering of the classes above returns, and the states it leaves.\<close>

definition ex_loweredDecoratedClass :: "statement list" where
  "ex_loweredDecoratedClass =
     [VariableStatement [] NodeFlags_Let
        [(DeclName LocalName ''C'', Some (ClassExpression (Some (Identifier ''C'')) 7))],
      ExpressionStatement
        (DecorateHelper
           [SourceExpr 64, MetadataHelper ''design:type'' (Identifier ''Function''),
            MetadataHelper ''design:paramtypes'' (ArrayLiteral []),
            MetadataHelper ''design:returntype'' VoidZero]
           (PropertyAccess (DeclName PlainName ''C'') (Identifier ''prototype''))
           (Some (StringLiteral ''m'')) (Some NullLiteral)),
      ExpressionStatement
        (DecorateHelper [SourceExpr 63, MetadataHelper ''design:type'' (Identifier ''Object'')]
           (DeclName PlainName ''C'') (Some (StringLiteral ''y'')) (Some VoidZero)),
      ExpressionStatement
        (Assignment (DeclName LocalName ''C'')
           (DecorateHelper [SourceExpr 60] (DeclName LocalName ''C'') None None)),
      EndOfDeclarationMarker 7]"

definition ex_decoratedHelpers :: "string list" where
  "ex_decoratedHelpers =
     [''typescript:metadata'', ''typescript:metadata'', ''typescript:metadata'',
      ''typescript:decorate'', ''typescript:metadata'', ''typescript:decorate'',
      ''typescript:decorate'']"

definition ex_decoratedState :: transform_state where
  "ex_decoratedState = ex_freshState\<lparr>contextEmitHelpers := ex_decoratedHelpers\<rparr>"

definition ex_loweredAliasedClass :: "statement list" where
  "ex_loweredAliasedClass =
     [VariableStatement [] NodeFlags_None
        [(DeclName LocalName ''C'',
          Some (ImmediatelyInvokedArrowFunction
             [VariableStatement [] NodeFlags_None [(UniqueName ''C'', None)],
              VariableStatement [] NodeFlags_Let
                [(DeclName InternalName ''C'',
                  Some (Assignment (UniqueName ''C'')
                          (ClassExpression (Some (Identifier ''C'')) 7)))],
              ExpressionStatement
                (DecorateHelper
                   [SourceExpr 64, MetadataHelper ''design:type'' (Identifier ''Function''),
                    MetadataHelper ''design:paramtypes'' (ArrayLiteral []),
                    MetadataHelper ''design:returntype'' VoidZero]
                   (PropertyAccess (DeclName PlainName ''C'') (Identifier ''prototype''))
                   (Some (StringLiteral ''m'')) (Some NullLiteral)),
              ExpressionStatement
                (DecorateHelper
                   [SourceExpr 63, MetadataHelper ''design:type'' (Identifier ''Object'')]
                   (DeclName PlainName ''C'') (Some (StringLiteral ''y'')) (Some VoidZero)),
              ExpressionStatement
                (Assignment (DeclName InternalName ''C'')
                   (Assignment (UniqueName ''C'')
                      (DecorateHelper [SourceExpr 60] (DeclName InternalName ''C'') None None))),
              ReturnStatement (PartiallyEmitted (DeclName InternalName ''C''))]))]]"

definition ex_aliasState :: transform_state where
  "ex_aliasState = ex_freshState\<lparr>enabledSubstitutions := {ClassAliases},
     classAliases := Some [(7, UniqueName ''C'')],
     contextSubstitutionKinds := {SK_Identifier},
     contextEmitHelpers := ex_decoratedHelpers\<rparr>"

section \<open>Properties\<close>

subsection \<open>State around a visit\<close>

text \<open>
  C4, as the code has it. When \<^verbatim>\<open>saveStateAndInvoke\<close> returns, the lexical scope,
  the name scope and the has-parameter-properties flag have the values captured on
  entry. The map of first declarations is set back to the captured value exactly when
  the lexical scope at the end of the sub-visit is not the captured scope (the visited
  node opened a scope of its own, whose map is thereby dropped); when the scope is the
  same, the map is left as the sub-visit left it, so that declarations recorded during
  the visit stay recorded in the current scope.
\<close>

theorem saveStateAndInvoke_restores:
  assumes "saveStateAndInvoke s n f = Inr (visited, s')"
  shows "currentLexicalScope s' = currentLexicalScope s
       \<and> currentNameScope s' = currentNameScope s
       \<and> currentClassHasParameterProperties s' = currentClassHasParameterProperties s
       \<and> (\<exists>s1 s2. onBeforeVisitNode s n = Inr s1 \<and> f n s1 = Inr (visited, s2)
            \<and> currentScopeFirstDeclarationsOfName s' =
                (if sameNode (currentLexicalScope s2) (currentLexicalScope s)
                 then currentScopeFirstDeclarationsOfName s2
                 else currentScopeFirstDeclarationsOfName s))"
  using assms
  by (auto simp: saveStateAndInvoke_def Let_def split: sum.splits prod.splits if_splits)

text \<open>
  The claim as worded fails both ways. Visiting a block from \<open>ex_state\<close> changes the
  scope during the visit, and the map comes back as captured, with its entry for
  \<^verbatim>\<open>N\<close>; visiting the class declaration \<^verbatim>\<open>C\<close> leaves the scope alone, and the map
  is not the captured one: it has gained the entry for \<^verbatim>\<open>C\<close>.
\<close>

theorem saveStateAndInvoke_counterexample:
  "saveStateAndInvoke ex_state ex_blockNode ex_visit = Inr ((), ex_state)
   \<and> currentScopeFirstDeclarationsOfName ex_state = Some [(''N'', ex_namespaceNode)]
   \<and> saveStateAndInvoke ex_state ex_classNode ex_visit =
       Inr ((), ex_state\<lparr>currentScopeFirstDeclarationsOfName :=
                  Some [(''N'', ex_namespaceNode), (''C'', ex_classNode)]\<rparr>)"
  by (simp add: Let_def saveStateAndInvoke_def onBeforeVisitNode_def ex_state_def
      ex_blockNode_def ex_classNode_def ex_visit_def sameNode_def ex_sourceFileNode_def
      hasSyntacticModifier_def recordEmittedDeclarationInScope_def declaredNameInScope_def)

theorem saveStateAndInvoke_restores_witness:
  "saveStateAndInvoke ex_state ex_classNode ex_visit =
     Inr ((), ex_state\<lparr>currentScopeFirstDeclarationsOfName :=
                Some [(''N'', ex_namespaceNode), (''C'', ex_classNode)]\<rparr>)
   \<and> currentLexicalScope
        (ex_state\<lparr>currentScopeFirstDeclarationsOfName :=
           Some [(''N'', ex_namespaceNode), (''C'', ex_classNode)]\<rparr>) =
      currentLexicalScope ex_state"
proof -
  have run: "saveStateAndInvoke ex_state ex_classNode ex_visit =
     Inr ((), ex_state\<lparr>currentScopeFirstDeclarationsOfName :=
                Some [(''N'', ex_namespaceNode), (''C'', ex_classNode)]\<rparr>)"
    by (simp add: Let_def saveStateAndInvoke_def onBeforeVisitNode_def ex_state_def
        ex_classNode_def ex_visit_def sameNode_def ex_sourceFileNode_def
        hasSyntacticModifier_def recordEmittedDeclarationInScope_def declaredNameInScope_def)
  from saveStateAndInvoke_restores [OF run] run show ?thesis by simp
qed

subsection \<open>Declaration files\<close>

text \<open>
  C9. For a source file flagged as a declaration file, \<^verbatim>\<open>transformSourceFile\<close>
  returns the file it was given and leaves every variable of the transformer and of
  the context as it was, whatever the visit of the statements would do: no visitor
  runs, no statement is rewritten and no emit helper is attached.
\<close>

theorem transformSourceFile_declaration_file:
  assumes "isDeclarationFile sf"
  shows "transformSourceFile visitSourceFile s sf = Inr (sf, s)"
  using assms by (simp add: transformSourceFile_def)

theorem transformSourceFile_declaration_file_witness:
  "isDeclarationFile ex_declarationFile
   \<and> transformSourceFile (\<lambda>sf s. Inl DebugAssertFailed) ex_state ex_declarationFile =
       Inr (ex_declarationFile, ex_state)"
proof -
  have h: "isDeclarationFile ex_declarationFile" by (simp add: ex_declarationFile_def)
  from transformSourceFile_declaration_file [OF h] h show ?thesis by simp
qed

subsection \<open>Enumeration members\<close>

text \<open>
  C2. Let the lowered value of an enumeration member be \<open>valueExpression\<close>. When it is
  not a string literal, \<^verbatim>\<open>transformEnumMember\<close> produces the one expression statement
  \<^verbatim>\<open>container[container[name] = value] = name\<close>, which holds the forward and the
  reverse assignment; when it is a string literal, the statement is the forward
  assignment \<^verbatim>\<open>container[name] = value\<close> alone.
\<close>

theorem transformEnumMember_assignments:
  assumes "transformEnumMemberDeclarationValue getConstantValue visitor s member =
             Inr (valueExpression, s1)"
    and "currentNamespaceContainerName s1 = Some container"
  shows "(let name = getExpressionForPropertyName (\<lambda>_. False) (em_name member) False in
          (\<not> isStringLiteralKind valueExpression \<longrightarrow>
             transformEnumMember getConstantValue visitor s member =
               Inr (ExpressionStatement
                      (Assignment
                         (ElementAccess container
                            (Assignment (ElementAccess container name) valueExpression))
                         name), s1))
        \<and> (isStringLiteralKind valueExpression \<longrightarrow>
             transformEnumMember getConstantValue visitor s member =
               Inr (ExpressionStatement
                      (Assignment (ElementAccess container name) valueExpression), s1)))"
  using assms by (simp add: transformEnumMember_def Let_def)

theorem transformEnumMember_assignments_witness:
  "transformEnumMember ex_getConstantValue ex_visitor ex_enumState ex_memberA =
     Inr (ExpressionStatement
            (Assignment
               (ElementAccess (GeneratedNameForNode 10)
                  (Assignment (ElementAccess (GeneratedNameForNode 10) (StringLiteral ''A''))
                     (NumericLiteral 1)))
               (StringLiteral ''A'')), ex_enumState)"
proof -
  have v: "transformEnumMemberDeclarationValue ex_getConstantValue ex_visitor ex_enumState
             ex_memberA = Inr (NumericLiteral 1, ex_enumState)"
    by (simp add: transformEnumMemberDeclarationValue_def ex_getConstantValue_def
        ex_memberA_def)
  have c: "currentNamespaceContainerName ex_enumState = Some (GeneratedNameForNode 10)"
    by (simp add: ex_enumState_def)
  from transformEnumMember_assignments [OF v c] show ?thesis
    by (simp add: Let_def ex_memberA_def)
qed

text \<open>
  C10. For a member with no constant value from the resolver and no initializer,
  \<^verbatim>\<open>transformEnumMemberDeclarationValue\<close> returns \<^verbatim>\<open>void 0\<close> and leaves the
  substitution of non-qualified enumeration members enabled; \<^verbatim>\<open>void 0\<close> is not a
  string literal, and \<^verbatim>\<open>transformEnumMember\<close> emits the forward assignment inside
  the reverse one.
\<close>

theorem transformEnumMember_without_value:
  assumes "getConstantValue (node_id (em_node member)) = None"
    and "em_initializer member = None"
    and "currentNamespaceContainerName s = Some container"
  shows "transformEnumMemberDeclarationValue getConstantValue visitor s member =
           Inr (VoidZero, enableSubstitutionForNonQualifiedEnumMembers s)
       \<and> NonQualifiedEnumMembers \<in>
           enabledSubstitutions (enableSubstitutionForNonQualifiedEnumMembers s)
       \<and> \<not> isStringLiteralKind VoidZero
       \<and> transformEnumMember getConstantValue visitor s member =
           Inr (ExpressionStatement
                  (Assignment
                     (ElementAccess container
                        (Assignment
                           (ElementAccess container
                              (getExpressionForPropertyName (\<lambda>_. False) (em_name member) False))
                           VoidZero))
                     (getExpressionForPropertyName (\<lambda>_. False) (em_name member) False)),
                enableSubstitutionForNonQualifiedEnumMembers s)"
  using assms
  by (simp add: transformEnumMember_def transformEnumMemberDeclarationValue_def Let_def
      enableSubstitutionForNonQualifiedEnumMembers_def)

theorem transformEnumMember_without_value_witness:
  "transformEnumMember ex_getConstantValue (\<lambda>e s. Inl DebugAssertFailed) ex_enumState ex_memberD =
     Inr (ExpressionStatement
            (Assignment
               (ElementAccess (GeneratedNameForNode 10)
                  (Assignment (ElementAccess (GeneratedNameForNode 10) (StringLiteral ''D''))
                     VoidZero))
               (StringLiteral ''D'')),
          ex_enumState\<lparr>enabledSubstitutions := {NonQualifiedEnumMembers},
                       contextSubstitutionKinds := {SK_Identifier}\<rparr>)"
proof -
  have a: "ex_getConstantValue (node_id (em_node ex_memberD)) = None"
    by (simp add: ex_getConstantValue_def ex_memberD_def)
  have b: "em_initializer ex_memberD = None" by (simp add: ex_memberD_def)
  have c: "currentNamespaceContainerName ex_enumState = Some (GeneratedNameForNode 10)"
    by (simp add: ex_enumState_def)
  from transformEnumMember_without_value
         [where getConstantValue = ex_getConstantValue and member = ex_memberD
            and s = ex_enumState and container = "GeneratedNameForNode 10"
            and visitor = "\<lambda>e s. Inl DebugAssertFailed"] a b c
  show ?thesis
    by (simp add: ex_memberD_def enableSubstitutionForNonQualifiedEnumMembers_def
        ex_enumState_def ex_state_def)
qed

subsection \<open>The serializer of type nodes\<close>

lemma serializeTypeNode_kind:
  "serializeTypeNode env scope b None = Inr (Identifier ''Object'')"
  "serializeTypeNode env scope b (Some VoidKeyword) = Inr VoidZero"
  "serializeTypeNode env scope b (Some UndefinedKeyword) = Inr VoidZero"
  "serializeTypeNode env scope b (Some NeverKeyword) = Inr VoidZero"
  "serializeTypeNode env scope b (Some FunctionType) = Inr (Identifier ''Function'')"
  "serializeTypeNode env scope b (Some ConstructorType) = Inr (Identifier ''Function'')"
  "serializeTypeNode env scope b (Some (ArrayType t)) = Inr (Identifier ''Array'')"
  "serializeTypeNode env scope b (Some (TupleType ts)) = Inr (Identifier ''Array'')"
  "serializeTypeNode env scope b (Some TypePredicate) = Inr (Identifier ''Boolean'')"
  "serializeTypeNode env scope b (Some BooleanKeyword) = Inr (Identifier ''Boolean'')"
  "serializeTypeNode env scope b (Some StringKeyword) = Inr (Identifier ''String'')"
  "serializeTypeNode env scope b (Some ObjectKeyword) = Inr (Identifier ''Object'')"
  "serializeTypeNode env scope b (Some (LiteralType LK_StringLiteral)) = Inr (Identifier ''String'')"
  "serializeTypeNode env scope b (Some (LiteralType LK_NoSubstitutionTemplateLiteral)) = Inr (Identifier ''String'')"
  "serializeTypeNode env scope b (Some (LiteralType LK_PrefixUnaryExpression)) = Inr (Identifier ''Number'')"
  "serializeTypeNode env scope b (Some (LiteralType LK_NumericLiteral)) = Inr (Identifier ''Number'')"
  "serializeTypeNode env scope b (Some (LiteralType LK_BigIntLiteral)) = Inr (getGlobalBigIntNameWithFallback env)"
  "serializeTypeNode env scope b (Some (LiteralType LK_TrueKeyword)) = Inr (Identifier ''Boolean'')"
  "serializeTypeNode env scope b (Some (LiteralType LK_FalseKeyword)) = Inr (Identifier ''Boolean'')"
  "serializeTypeNode env scope b (Some (LiteralType LK_NullKeyword)) = Inr VoidZero"
  "serializeTypeNode env scope b (Some (LiteralType (LK_Other j))) = Inl DebugFailBadSyntaxKind"
  "serializeTypeNode env scope b (Some NumberKeyword) = Inr (Identifier ''Number'')"
  "serializeTypeNode env scope b (Some BigIntKeyword) = Inr (getGlobalBigIntNameWithFallback env)"
  "serializeTypeNode env scope b (Some SymbolKeyword) = Inr (if languageVersion env < ES2015 then getGlobalSymbolNameWithFallback else Identifier ''Symbol'')"
  "serializeTypeNode env scope b (Some (TypeReference typeName typeArguments)) = Inr (serializeTypeReferenceNode env scope b typeName)"
  "serializeTypeNode env scope b (Some (IntersectionType ts)) = serializeTypeListFrom env scope b None ts"
  "serializeTypeNode env scope b (Some (UnionType ts)) = serializeTypeListFrom env scope b None ts"
  "serializeTypeNode env scope b (Some (ConditionalType c e t f)) = serializeTypeListFrom env scope True None [t, f]"
  "serializeTypeNode env scope b (Some (TypeOperator operator t)) = (if operator = ReadonlyKeyword then serializeTypeNode env scope b (Some t) else Inr (Identifier ''Object''))"
  "serializeTypeNode env scope b (Some (ParenthesizedType t)) = serializeTypeNode env scope b (Some t)"
  "serializeTypeNode env scope b (Some (JSDocNullableType t)) = serializeTypeNode env scope b (Some t)"
  "serializeTypeNode env scope b (Some (JSDocNonNullableType t)) = serializeTypeNode env scope b (Some t)"
  "serializeTypeNode env scope b (Some (JSDocOptionalType t)) = serializeTypeNode env scope b (Some t)"
  "serializeTypeNode env scope b (Some TemplateLiteralType) = Inl DebugFailBadSyntaxKind"
  "serializeTypeNode env scope b (Some InferType) = Inl DebugFailBadSyntaxKind"
  "serializeTypeNode env scope b (Some (OptionalType t)) = Inl DebugFailBadSyntaxKind"
  "serializeTypeNode env scope b (Some (RestType t)) = Inl DebugFailBadSyntaxKind"
  "serializeTypeNode env scope b (Some (NamedTupleMember t)) = Inl DebugFailBadSyntaxKind"
  "serializeTypeNode env scope b (Some TypeQuery) = Inr (Identifier ''Object'')"
  "serializeTypeNode env scope b (Some IndexedAccessType) = Inr (Identifier ''Object'')"
  "serializeTypeNode env scope b (Some MappedType) = Inr (Identifier ''Object'')"
  "serializeTypeNode env scope b (Some TypeLiteral) = Inr (Identifier ''Object'')"
  "serializeTypeNode env scope b (Some AnyKeyword) = Inr (Identifier ''Object'')"
  "serializeTypeNode env scope b (Some UnknownKeyword) = Inr (Identifier ''Object'')"
  "serializeTypeNode env scope b (Some ThisType) = Inr (Identifier ''Object'')"
  "serializeTypeNode env scope b (Some ImportType) = Inr (Identifier ''Object'')"
  "serializeTypeNode env scope b (Some JSDocAllType) = Inr (Identifier ''Object'')"
  "serializeTypeNode env scope b (Some JSDocUnknownType) = Inr (Identifier ''Object'')"
  "serializeTypeNode env scope b (Some JSDocFunctionType) = Inr (Identifier ''Object'')"
  "serializeTypeNode env scope b (Some JSDocVariadicType) = Inr (Identifier ''Object'')"
  "serializeTypeNode env scope b (Some JSDocNamepathType) = Inr (Identifier ''Object'')"
  by (subst serializeTypeNode.simps, simp)+

lemma serializeTypeListFrom_Nil:
  "serializeTypeListFrom env scope b u [] = Inr (case u of Some u \<Rightarrow> u | None \<Rightarrow> VoidZero)"
  by (subst serializeTypeListFrom.simps) simp

lemma isEntityName_serialize: "isEntityNameExpression (serializeEntityNameAsExpression n)"
  by (induction n) auto

lemma isSerialized_entity: "isSerializedTypeNode (serializeEntityNameAsExpression n)"
  by (cases n) (auto simp: isEntityName_serialize)

lemma isSerialized_reference:
  "isSerializedTypeNode (serializeTypeReferenceNode env scope b n)"
  by (auto simp: serializeTypeReferenceNode_def isSerialized_entity Let_def
      getGlobalBigIntNameWithFallback_def getGlobalSymbolNameWithFallback_def
      split: TypeReferenceSerializationKind.splits)


lemma serializeTypeListFrom_Cons:
  "serializeTypeListFrom env scope b u (t0 # rest) =
     (let t = skipParenthesizedType t0 in
      if t = NeverKeyword then serializeTypeListFrom env scope b u rest
      else if \<not> strictNullChecks env \<and> (t = LiteralType LK_NullKeyword \<or> t = UndefinedKeyword)
      then serializeTypeListFrom env scope b u rest
      else
        (case serializeTypeNode env scope b (Some t) of
           Inl e \<Rightarrow> Inl e
         | Inr si \<Rightarrow>
             if isIdentifier si \<and> escapedText si = ''Object'' then Inr si
             else
               (case u of
                  Some v \<Rightarrow>
                    if \<not> isIdentifier v \<or> \<not> isIdentifier si \<or> escapedText v \<noteq> escapedText si
                    then Inr (Identifier ''Object'')
                    else serializeTypeListFrom env scope b u rest
                | None \<Rightarrow> serializeTypeListFrom env scope b (Some si) rest)))"
  by (subst serializeTypeListFrom.simps) simp

lemma serializeTypeNode_skipParenthesizedType:
  "serializeTypeNode env scope b (Some (skipParenthesizedType t)) =
   serializeTypeNode env scope b (Some t)"
  by (induction t rule: skipParenthesizedType.induct) (simp_all add: serializeTypeNode_kind)

lemma serializeTypeListFrom_form:
  assumes "\<forall>t\<in>set ts. \<forall>e. serializeTypeNode env scope b (Some t) = Inr e
             \<longrightarrow> isSerializedTypeNode e"
    and "\<forall>x. u = Some x \<longrightarrow> isSerializedTypeNode x"
    and "serializeTypeListFrom env scope b u ts = Inr e"
  shows "isSerializedTypeNode e"
  using assms
proof (induction ts arbitrary: u)
  case Nil
  then show ?case by (cases u) (auto simp: serializeTypeListFrom_Nil)
next
  case (Cons t0 rest)
  let ?t = "skipParenthesizedType t0"
  have ih: "\<And>u'. \<forall>x. u' = Some x \<longrightarrow> isSerializedTypeNode x \<Longrightarrow>
      serializeTypeListFrom env scope b u' rest = Inr e \<Longrightarrow> isSerializedTypeNode e"
    by (rule Cons.IH) (use Cons.prems(1) in auto)
  have hd: "\<And>e'. serializeTypeNode env scope b (Some ?t) = Inr e' \<Longrightarrow> isSerializedTypeNode e'"
    using Cons.prems(1) by (simp add: serializeTypeNode_skipParenthesizedType)
  show ?case
  proof (cases "?t = NeverKeyword \<or> (\<not> strictNullChecks env
                  \<and> (?t = LiteralType LK_NullKeyword \<or> ?t = UndefinedKeyword))")
    case True
    then have "serializeTypeListFrom env scope b u (t0 # rest) =
               serializeTypeListFrom env scope b u rest"
      by (auto simp: serializeTypeListFrom_Cons Let_def)
    with Cons.prems(3) ih [of u] Cons.prems(2) show ?thesis by simp
  next
    case False
    show ?thesis
    proof (cases "serializeTypeNode env scope b (Some ?t)")
      case (Inl x)
      with False Cons.prems(3) show ?thesis
        by (auto simp: serializeTypeListFrom_Cons Let_def)
    next
      case (Inr si)
      have si: "isSerializedTypeNode si" using hd Inr by simp
      show ?thesis
      proof (cases u)
        case None
        with False Inr Cons.prems(3)
        have "e = si \<or> serializeTypeListFrom env scope b (Some si) rest = Inr e"
          by (auto simp: serializeTypeListFrom_Cons Let_def split: if_splits)
        then show ?thesis using si ih [of "Some si"] by auto
      next
        case (Some v)
        with False Inr Cons.prems(3)
        have "e = si \<or> e = Identifier ''Object''
              \<or> serializeTypeListFrom env scope b u rest = Inr e"
          by (auto simp: serializeTypeListFrom_Cons Let_def split: if_splits)
        then show ?thesis using si ih [of u] Cons.prems(2) by auto
      qed
    qed
  qed
qed

lemma serializeTypeNode_form_Some:
  "serializeTypeNode env scope b (Some t) = Inr e \<Longrightarrow> isSerializedTypeNode e"
proof (induction t arbitrary: b e)
  case (IntersectionType ts)
  then show ?case
    using serializeTypeListFrom_form [of ts env scope b None e]
    by (simp add: serializeTypeNode_kind)
next
  case (UnionType ts)
  then show ?case
    using serializeTypeListFrom_form [of ts env scope b None e]
    by (simp add: serializeTypeNode_kind)
next
  case (ConditionalType c x t f)
  then show ?case
    using serializeTypeListFrom_form [of "[t, f]" env scope True None e]
    by (simp add: serializeTypeNode_kind)
next
  case (LiteralType k)
  then show ?case
    by (cases k) (auto simp: serializeTypeNode_kind getGlobalBigIntNameWithFallback_def)
qed (auto simp: serializeTypeNode_kind isSerialized_reference
       getGlobalBigIntNameWithFallback_def getGlobalSymbolNameWithFallback_def split: if_splits)


lemma serializeTypeListFrom_returns:
  assumes "\<forall>t\<in>set ts. \<exists>e. serializeTypeNode env scope b (Some t) = Inr e"
  shows "\<exists>e. serializeTypeListFrom env scope b u ts = Inr e"
  using assms
proof (induction ts arbitrary: u)
  case Nil
  then show ?case by (simp add: serializeTypeListFrom_Nil)
next
  case (Cons t0 rest)
  have ih: "\<And>u'. \<exists>e. serializeTypeListFrom env scope b u' rest = Inr e"
    by (rule Cons.IH) (use Cons.prems in auto)
  obtain si where si: "serializeTypeNode env scope b (Some (skipParenthesizedType t0)) = Inr si"
    using Cons.prems by (auto simp: serializeTypeNode_skipParenthesizedType)
  show ?case
    using ih [of u] ih [of "Some si"] si
    by (cases u) (auto simp: serializeTypeListFrom_Cons Let_def)
qed

lemma serializeTypeNode_returns_Some:
  "handledTypeNode t \<Longrightarrow> \<exists>e. serializeTypeNode env scope b (Some t) = Inr e"
proof (induction t arbitrary: b)
  case (IntersectionType ts)
  then show ?case
    using serializeTypeListFrom_returns [of ts env scope b None]
    by (simp add: serializeTypeNode_kind list_all_iff)
next
  case (UnionType ts)
  then show ?case
    using serializeTypeListFrom_returns [of ts env scope b None]
    by (simp add: serializeTypeNode_kind list_all_iff)
next
  case (ConditionalType c x t f)
  then show ?case
    using serializeTypeListFrom_returns [of "[t, f]" env scope True None]
    by (simp add: serializeTypeNode_kind)
next
  case (LiteralType k)
  then show ?case
    by (cases k) (auto simp: serializeTypeNode_kind)
qed (auto simp: serializeTypeNode_kind)

text \<open>
  On an absent type node, and on every type node whose kinds are all among those the
  \<^verbatim>\<open>switch\<close> handles, \<^verbatim>\<open>serializeTypeNode\<close> returns an expression of one of
  the serialized forms.
\<close>

lemma serializeTypeNode_handled_kinds:
  assumes "case node of None \<Rightarrow> True | Some t \<Rightarrow> handledTypeNode t"
  shows "\<exists>e. serializeTypeNode env scope b node = Inr e \<and> isSerializedTypeNode e"
proof (cases node)
  case None
  then show ?thesis by (simp add: serializeTypeNode_kind)
next
  case (Some t)
  with assms obtain e where "serializeTypeNode env scope b (Some t) = Inr e"
    using serializeTypeNode_returns_Some [of t env scope b] by auto
  with Some show ?thesis
    using serializeTypeNode_form_Some [of env scope b t e] by simp
qed

text \<open>
  C5 does not hold of the code. A template literal type, as in
  \<^verbatim>\<open>@dec x: `a${string}`\<close>, is a type node that the \<^verbatim>\<open>switch\<close> of
  \<^verbatim>\<open>serializeTypeNode\<close> has no \<^verbatim>\<open>case\<close> for: whatever the options and the
  scope, the \<^verbatim>\<open>default\<close> branch is taken and \<^verbatim>\<open>Debug.failBadSyntaxKind\<close>
  aborts the transformation, where the comment above the function has every other type
  point to the global \<^verbatim>\<open>Object\<close>. A union with such a constituent fails the same
  way.
\<close>

theorem serializeTypeNode_template_literal_aborts:
  "serializeTypeNode env scope b (Some TemplateLiteralType) = Inl DebugFailBadSyntaxKind
   \<and> serializeTypeNode env scope b (Some (UnionType [StringKeyword, TemplateLiteralType]))
       = Inl DebugFailBadSyntaxKind"
  by (simp add: serializeTypeNode_kind serializeTypeListFrom_Cons serializeTypeListFrom_Nil)








subsection \<open>Declarations without a body\<close>

text \<open>
  C8, as the code has it. A constructor, a method, a function declaration or a function
  expression whose body is missing is elided: the visit returns nothing, a not-emitted
  statement or an omitted expression. An accessor whose body is missing is elided only
  when it is abstract; a bodiless accessor that is not abstract is emitted: the visit
  returns the updated accessor, whose body is what the visit of the missing body
  returns or, when that is nothing, the empty block.
\<close>

theorem bodyless_declarations_elided:
  assumes "nodeIsMissing (d_body n)"
  shows "visitConstructor V n = None
       \<and> visitMethodDeclaration V s n = None
       \<and> visitFunctionDeclaration V s n = [Emitted (NotEmittedStatement (node_id (d_node n)))]
       \<and> visitFunctionExpression V s n = EmittedExpression OmittedExpression
       \<and> (hasSyntacticModifier (d_node n) Abstract \<longrightarrow>
            visitGetAccessor V s n = None \<and> visitSetAccessor V s n = None)
       \<and> (\<not> hasSyntacticModifier (d_node n) Abstract \<longrightarrow>
            visitGetAccessor V s n =
              Some \<lparr>vf_kind = SK_GetAccessor,
                     vf_modifiers =
                       List.map_filter (modifierVisitor s) (node_modifiers (d_node n)),
                     vf_propertyName = visitPropertyNameOfClassElement V n,
                     vf_name = None,
                     vf_parameters = visitParameterList V (d_parameters n),
                     vf_body = Some (case visitFunctionBody V (d_body n) of
                                       None \<Rightarrow> EmptyBlock | Some b \<Rightarrow> b)\<rparr>
          \<and> visitSetAccessor V s n =
              Some \<lparr>vf_kind = SK_SetAccessor,
                     vf_modifiers =
                       List.map_filter (modifierVisitor s) (node_modifiers (d_node n)),
                     vf_propertyName = visitPropertyNameOfClassElement V n,
                     vf_name = None,
                     vf_parameters = visitParameterList V (d_parameters n),
                     vf_body = Some (case visitFunctionBody V (d_body n) of
                                       None \<Rightarrow> EmptyBlock | Some b \<Rightarrow> b)\<rparr>)"
  using assms
  by (auto simp: visitConstructor_def visitMethodDeclaration_def visitFunctionDeclaration_def
      visitFunctionExpression_def visitGetAccessor_def visitSetAccessor_def
      shouldEmitFunctionLikeDeclaration_def shouldEmitAccessorDeclaration_def
      split: option.splits)

theorem bodyless_declarations_elided_witness:
  "nodeIsMissing (d_body ex_abstractMethod)
   \<and> visitMethodDeclaration ex_memberVisitors ex_state ex_abstractMethod = None
   \<and> nodeIsMissing (d_body ex_abstractGetter)
   \<and> hasSyntacticModifier (d_node ex_abstractGetter) Abstract
   \<and> visitGetAccessor ex_memberVisitors ex_state ex_abstractGetter = None
   \<and> nodeIsMissing (d_body ex_bodylessSetter)
   \<and> visitSetAccessor ex_memberVisitors ex_state ex_bodylessSetter =
       Some \<lparr>vf_kind = SK_SetAccessor, vf_modifiers = [],
              vf_propertyName = Some (IdentifierName ''x''), vf_name = None,
              vf_parameters = d_parameters ex_bodylessSetter, vf_body = Some EmptyBlock\<rparr>"
proof -
  have m: "nodeIsMissing (d_body ex_abstractMethod)"
    by (simp add: nodeIsMissing_def ex_abstractMethod_def)
  have g: "nodeIsMissing (d_body ex_abstractGetter)"
    by (simp add: nodeIsMissing_def ex_abstractGetter_def)
  have a: "hasSyntacticModifier (d_node ex_abstractGetter) Abstract"
    by (simp add: hasSyntacticModifier_def ex_abstractGetter_def)
  have t: "nodeIsMissing (d_body ex_bodylessSetter)"
    by (simp add: nodeIsMissing_def ex_bodylessSetter_def)
  have n: "\<not> hasSyntacticModifier (d_node ex_bodylessSetter) Abstract"
    by (simp add: hasSyntacticModifier_def ex_bodylessSetter_def)
  have v: "List.map_filter (modifierVisitor ex_state) (node_modifiers (d_node ex_bodylessSetter))
             = []
           \<and> visitPropertyNameOfClassElement ex_memberVisitors ex_bodylessSetter
               = Some (IdentifierName ''x'')
           \<and> visitParameterList ex_memberVisitors (d_parameters ex_bodylessSetter)
               = d_parameters ex_bodylessSetter
           \<and> visitFunctionBody ex_memberVisitors (d_body ex_bodylessSetter) = None"
    by (simp add: ex_bodylessSetter_def ex_memberVisitors_def List.map_filter_def
        modifierVisitor_def TypeScriptModifier_def)
  from bodyless_declarations_elided [OF m, of ex_memberVisitors ex_state]
       bodyless_declarations_elided [OF g, of ex_memberVisitors ex_state]
       bodyless_declarations_elided [OF t, of ex_memberVisitors ex_state]
       m g a t n v
  show ?thesis by simp
qed

text \<open>
  The accessor \<^verbatim>\<open>public get x(): number;\<close> has no body and is not abstract: it is
  emitted with an empty block.
\<close>

theorem bodyless_accessor_counterexample:
  "nodeIsMissing (d_body ex_bodylessGetter)
   \<and> visitGetAccessor ex_memberVisitors ex_state ex_bodylessGetter =
       Some \<lparr>vf_kind = SK_GetAccessor, vf_modifiers = [],
              vf_propertyName = Some (IdentifierName ''x''),
              vf_name = None, vf_parameters = [], vf_body = Some EmptyBlock\<rparr>"
  by (simp add: visitGetAccessor_def shouldEmitAccessorDeclaration_def nodeIsMissing_def
      ex_bodylessGetter_def ex_memberVisitors_def hasSyntacticModifier_def
      modifierVisitor_def TypeScriptModifier_def)

subsection \<open>Merged namespaces and enumerations\<close>



lemma addVar_frame:
  assumes "addVarForEnumOrModuleDeclaration s sts n = Inr (v, sts', s')"
  shows "currentNamespace s' = currentNamespace s
       \<and> currentNamespaceContainerName s' = currentNamespaceContainerName s
       \<and> currentLexicalScope s' = currentLexicalScope s"
  using assms
  by (auto simp: addVarForEnumOrModuleDeclaration_def recordEmittedDeclarationInScope_def
      isFirstEmittedDeclarationInScope_def Let_def split: option.splits sum.splits if_splits)















subsection \<open>Class declarations\<close>

lemma hoistVariableDeclaration_funpow_frame:
  "classAliases (((hoistVariableDeclaration v) ^^ n) s) = classAliases s"
  by (induction n) (simp_all add: hoistVariableDeclaration_def)

lemma serializeTypeNodeInContext_frame:
  "serializeTypeNodeInContext env scope node s = Inr (e, s') \<Longrightarrow> classAliases s' = classAliases s"
  by (auto simp: serializeTypeNodeInContext_def hoistVariableDeclaration_funpow_frame
      split: sum.splits)

lemma serializeTypeOfNode_frame:
  "serializeTypeOfNode env host s n = Inr (e, s') \<Longrightarrow> classAliases s' = classAliases s"
  by (cases n) (auto dest: serializeTypeNodeInContext_frame split: if_splits)

lemma serializeParameterTypesFrom_frame:
  "serializeParameterTypesFrom env host s i ps = Inr (es, s') \<Longrightarrow>
   classAliases s' = classAliases s"
proof (induction ps arbitrary: s i es)
  case Nil
  then show ?case by simp
next
  case (Cons p ps)
  show ?case
  proof (cases "i = 0 \<and> p_name p = BindingIdentifier ''this''")
    case True
    with Cons.prems Cons.IH [of s "Suc i" es] show ?thesis by simp
  next
    case False
    with Cons.prems obtain t s1 ts where
      a: "(if p_dotDotDotToken p
           then serializeTypeNodeInContext env (serializationScope s)
                  (getRestParameterElementType host (p_type p)) s
           else serializeTypeNodeInContext env (serializationScope s) (p_type p) s)
          = Inr (t, s1)"
      and b: "serializeParameterTypesFrom env host s1 (Suc i) ps = Inr (ts, s')"
      by (auto split: sum.splits if_splits)
    from a have "classAliases s1 = classAliases s"
      by (auto dest: serializeTypeNodeInContext_frame split: if_splits)
    with Cons.IH [OF b] show ?thesis by simp
  qed
qed

lemma serializeParameterTypesOfNode_frame:
  "serializeParameterTypesOfNode env host s n c = Inr (e, s') \<Longrightarrow>
   classAliases s' = classAliases s"
  by (auto simp: serializeParameterTypesOfNode_def Let_def
      dest: serializeParameterTypesFrom_frame split: option.splits sum.splits)

lemma serializeReturnTypeOfNode_frame:
  "serializeReturnTypeOfNode env host s n = Inr (e, s') \<Longrightarrow> classAliases s' = classAliases s"
  by (cases n) (auto dest: serializeTypeNodeInContext_frame split: if_splits)

lemma requestEmitHelper_frame [simp]:
  "classAliases (requestEmitHelper h s) = classAliases s"
  by (simp add: requestEmitHelper_def)

lemma addTypeMetadata_frame:
  assumes "addTypeMetadata env host s n c ds = Inr (es, s')"
  shows "classAliases s' = classAliases s"
  using assms
  by (auto simp: addTypeMetadata_def addOldTypeMetadata_def
      dest!: serializeTypeOfNode_frame serializeParameterTypesOfNode_frame
        serializeReturnTypeOfNode_frame
      split: if_splits sum.splits)

lemma classAliasOf_cong:
  "classAliases s' = classAliases s \<Longrightarrow> classAliasOf s' i = classAliasOf s i"
  by (simp add: classAliasOf_def)

lemma classAliasOf_requestEmitHelper [simp]:
  "classAliasOf (requestEmitHelper h s) i = classAliasOf s i"
  by (simp add: classAliasOf_def)

lemma visitExpression_keeps:
  "visitsKeepClassAlias host i \<Longrightarrow> visitExpression host e s = Inr (e', s') \<Longrightarrow>
   classAliasOf s' i = classAliasOf s i"
  unfolding visitsKeepClassAlias_def by blast

lemma visitHeritageClauses_keeps:
  "visitsKeepClassAlias host i \<Longrightarrow> visitHeritageClauses host clauses s = Inr s' \<Longrightarrow>
   classAliasOf s' i = classAliasOf s i"
  unfolding visitsKeepClassAlias_def by blast

lemma visitClassElements_keeps:
  "visitsKeepClassAlias host i \<Longrightarrow> visitClassElements host members s = Inr s' \<Longrightarrow>
   classAliasOf s' i = classAliasOf s i"
  unfolding visitsKeepClassAlias_def by blast

lemma visitEachChild_keeps:
  "visitsKeepClassAlias host i \<Longrightarrow> visitEachChild host c s = Inr s' \<Longrightarrow>
   classAliasOf s' i = classAliasOf s i"
  unfolding visitsKeepClassAlias_def by blast

lemma transformDecorators_frame:
  assumes k: "visitsKeepClassAlias host i"
  shows "transformDecorators host ds s = Inr (es, s') \<Longrightarrow>
         classAliasOf s' i = classAliasOf s i"
proof (induction ds arbitrary: s es)
  case Nil
  then show ?case by simp
next
  case (Cons d ds)
  from Cons.prems obtain x s1 xs where
    a: "visitExpression host d s = Inr (x, s1)"
    and b: "transformDecorators host ds s1 = Inr (xs, s')"
    by (auto simp: transformDecorator_def split: sum.splits)
  from visitExpression_keeps [OF k a] Cons.IH [OF b] show ?case by simp
qed

lemma transformDecoratorsOfParameterFrom_frame:
  assumes k: "visitsKeepClassAlias host i"
  shows "transformDecoratorsOfParameterFrom host offset ds s = Inr (es, s') \<Longrightarrow>
         classAliasOf s' i = classAliasOf s i"
proof (induction ds arbitrary: s es)
  case Nil
  then show ?case by simp
next
  case (Cons d ds)
  from Cons.prems obtain x s1 xs where
    a: "visitExpression host d s = Inr (x, s1)"
    and b: "transformDecoratorsOfParameterFrom host offset ds (requestEmitHelper paramHelper s1)
              = Inr (xs, s')"
    by (auto simp: transformDecorator_def split: sum.splits)
  from visitExpression_keeps [OF k a] Cons.IH [OF b] show ?case by simp
qed

lemma transformDecoratorsOfParameter_frame:
  assumes k: "visitsKeepClassAlias host i"
    and "transformDecoratorsOfParameter host decorators offset s = Inr (r, s')"
  shows "classAliasOf s' i = classAliasOf s i"
  using assms(2) transformDecoratorsOfParameterFrom_frame [OF k]
  by (auto simp: transformDecoratorsOfParameter_def split: option.splits sum.splits)

lemma transformDecoratorsOfParametersFrom_frame:
  assumes k: "visitsKeepClassAlias host i"
  shows "transformDecoratorsOfParametersFrom host j slots s = Inr (es, s') \<Longrightarrow>
         classAliasOf s' i = classAliasOf s i"
proof (induction slots arbitrary: s es j)
  case Nil
  then show ?case by simp
next
  case (Cons slot slots)
  from Cons.prems obtain r s1 xs where
    a: "transformDecoratorsOfParameter host slot j s = Inr (r, s1)"
    and b: "transformDecoratorsOfParametersFrom host (Suc j) slots s1 = Inr (xs, s')"
    by (auto split: sum.splits)
  from transformDecoratorsOfParameter_frame [OF k a] Cons.IH [OF b] show ?case by simp
qed

lemma transformAllDecoratorsOfDeclaration_frame:
  assumes k: "visitsKeepClassAlias host i"
    and run: "transformAllDecoratorsOfDeclaration env host s n c a = Inr (r, s')"
  shows "classAliasOf s' i = classAliasOf s i"
proof (cases a)
  case None
  with run show ?thesis by (simp add: transformAllDecoratorsOfDeclaration_def)
next
  case (Some all)
  with run obtain d1 s1 d2 s2 es where
    a1: "(case ad_decorators all of
            None \<Rightarrow> Inr ([], s)
          | Some ds \<Rightarrow> transformDecorators host ds s) = Inr (d1, s1)"
    and a2: "(case ad_parameters all of
                None \<Rightarrow> Inr ([], s1)
              | Some ps \<Rightarrow> transformDecoratorsOfParametersFrom host 0 ps s1) = Inr (d2, s2)"
    and a3: "addTypeMetadata env host s2 n c (d1 @ d2) = Inr (es, s')"
    by (auto simp: transformAllDecoratorsOfDeclaration_def split: sum.splits)
  from a1 have "classAliasOf s1 i = classAliasOf s i"
    using transformDecorators_frame [OF k] by (auto split: option.splits)
  moreover from a2 have "classAliasOf s2 i = classAliasOf s1 i"
    using transformDecoratorsOfParametersFrom_frame [OF k] by (auto split: option.splits)
  moreover from addTypeMetadata_frame [OF a3] have "classAliasOf s' i = classAliasOf s2 i"
    by (rule classAliasOf_cong)
  ultimately show ?thesis by simp
qed

lemma transformAllDecorators_None:
  "transformAllDecoratorsOfDeclaration env host s n c a = Inr (r, s') \<Longrightarrow>
   (r = None) = (a = None)"
  by (auto simp: transformAllDecoratorsOfDeclaration_def split: option.splits sum.splits)

lemma generateClassElementDecorationExpression_shape:
  assumes "generateClassElementDecorationExpression env host s node m = Inr (r, s')"
  shows "(getAllDecoratorsOfClassElement host node m = None \<longrightarrow> r = None)
       \<and> (getAllDecoratorsOfClassElement host node m \<noteq> None \<longrightarrow>
            (\<exists>x. r = Some x \<and> isMemberDecorateCall node m (expressionToStatement x)))"
proof -
  from assms obtain t s1 where
    t: "transformAllDecoratorsOfDeclaration env host s (DecoratedMember m) node
          (getAllDecoratorsOfClassElement host node m) = Inr (t, s1)"
    by (auto simp: generateClassElementDecorationExpression_def Let_def split: sum.splits)
  note none = transformAllDecorators_None [OF t]
  show ?thesis
  proof (cases t)
    case None
    with t assms none show ?thesis
      by (simp add: generateClassElementDecorationExpression_def Let_def)
  next
    case (Some ds)
    with t assms none show ?thesis
      by (auto simp: generateClassElementDecorationExpression_def Let_def
          isMemberDecorateCall_def expressionToStatement_def split: option.splits)
  qed
qed

lemma generateClassElementDecorationExpression_frame:
  assumes k: "visitsKeepClassAlias host i"
    and run: "generateClassElementDecorationExpression env host s node m = Inr (r, s')"
  shows "classAliasOf s' i = classAliasOf s i"
proof -
  from run obtain t s1 where
    t: "transformAllDecoratorsOfDeclaration env host s (DecoratedMember m) node
          (getAllDecoratorsOfClassElement host node m) = Inr (t, s1)"
    by (auto simp: generateClassElementDecorationExpression_def Let_def split: sum.splits)
  from run t have "classAliasOf s' i = classAliasOf s1 i"
    by (auto simp: generateClassElementDecorationExpression_def Let_def split: option.splits)
  with transformAllDecoratorsOfDeclaration_frame [OF k t] show ?thesis by simp
qed

lemma generateFrom_shape:
  "generateClassElementDecorationExpressionsFrom env host s node members = Inr (es, s') \<Longrightarrow>
   list_all2 (isMemberDecorateCall node)
     (filter (\<lambda>m. getAllDecoratorsOfClassElement host node m \<noteq> None) members)
     (map expressionToStatement es)"
proof (induction members arbitrary: es s)
  case Nil
  then show ?case by simp
next
  case (Cons m members)
  from Cons.prems obtain r s1 es' where
    r: "generateClassElementDecorationExpression env host s node m = Inr (r, s1)"
    and es': "generateClassElementDecorationExpressionsFrom env host s1 node members
                = Inr (es', s')"
    and es: "es = (case r of None \<Rightarrow> es' | Some x \<Rightarrow> x # es')"
    by (auto split: sum.splits)
  from generateClassElementDecorationExpression_shape [OF r] Cons.IH [OF es'] es
  show ?case by (cases r) auto
qed

lemma generateFrom_frame:
  assumes k: "visitsKeepClassAlias host i"
  shows "generateClassElementDecorationExpressionsFrom env host s node members = Inr (es, s')
         \<Longrightarrow> classAliasOf s' i = classAliasOf s i"
proof (induction members arbitrary: es s)
  case Nil
  then show ?case by simp
next
  case (Cons m members)
  from Cons.prems obtain r s1 es' where
    r: "generateClassElementDecorationExpression env host s node m = Inr (r, s1)"
    and es': "generateClassElementDecorationExpressionsFrom env host s1 node members
                = Inr (es', s')"
    by (auto split: sum.splits)
  from generateClassElementDecorationExpression_frame [OF k r] Cons.IH [OF es']
  show ?case by simp
qed

lemma addClassElementDecorationStatements_shape:
  assumes "addClassElementDecorationStatements env host s statements node static
             = Inr (statements', s')"
  shows "\<exists>calls. statements' = statements @ calls
           \<and> list_all2 (isMemberDecorateCall node) (membersWithDecorateCall host node static) calls"
  using assms generateFrom_shape [of env host s node "getDecoratedClassElements node static"]
  by (auto simp: addClassElementDecorationStatements_def membersWithDecorateCall_def
      generateClassElementDecorationExpressions_def split: sum.splits)

lemma addClassElementDecorationStatements_frame:
  assumes "visitsKeepClassAlias host i"
    and "addClassElementDecorationStatements env host s statements node static
           = Inr (statements', s')"
  shows "classAliasOf s' i = classAliasOf s i"
  using assms(2) generateFrom_frame [OF assms(1)]
  by (auto simp: addClassElementDecorationStatements_def
      generateClassElementDecorationExpressions_def split: sum.splits)

lemma isConstructorDecorateStatement_cong:
  assumes "classAliases s' = classAliases s"
  shows "isConstructorDecorateStatement env s' node st
           = isConstructorDecorateStatement env s node st"
  unfolding isConstructorDecorateStatement_def assms by (rule refl)

lemma addConstructorDecorationStatement_shape:
  assumes "addConstructorDecorationStatement env host s statements node = Inr (statements', s')"
  shows "\<exists>calls. statements' = statements @ calls
           \<and> (if getAllDecoratorsOfConstructor node = None then calls = []
               else (\<exists>st. calls = [st] \<and> isConstructorDecorateStatement env s' node st))"
proof -
  from assms obtain t s1 where
    t: "transformAllDecoratorsOfDeclaration env host s (DecoratedClass node) node
          (getAllDecoratorsOfConstructor node) = Inr (t, s1)"
    by (auto simp: addConstructorDecorationStatement_def
        generateConstructorDecorationExpression_def Let_def split: sum.splits)
  note none = transformAllDecorators_None [OF t]
  show ?thesis
  proof (cases t)
    case None
    with t assms none show ?thesis
      by (simp add: addConstructorDecorationStatement_def
          generateConstructorDecorationExpression_def Let_def)
  next
    case (Some ds)
    with t assms none show ?thesis
      by (auto simp: addConstructorDecorationStatement_def
          generateConstructorDecorationExpression_def Let_def
          isConstructorDecorateStatement_def isConstructorDecorateCall_def
          split: option.splits)
  qed
qed

lemma addConstructorDecorationStatement_frame:
  assumes k: "visitsKeepClassAlias host i"
    and run: "addConstructorDecorationStatement env host s statements node
                = Inr (statements', s')"
  shows "classAliasOf s' i = classAliasOf s i"
proof -
  from run obtain t s1 where
    t: "transformAllDecoratorsOfDeclaration env host s (DecoratedClass node) node
          (getAllDecoratorsOfConstructor node) = Inr (t, s1)"
    by (auto simp: addConstructorDecorationStatement_def
        generateConstructorDecorationExpression_def Let_def split: sum.splits)
  from run t have "classAliasOf s' i = classAliasOf s1 i"
    by (auto simp: addConstructorDecorationStatement_def
        generateConstructorDecorationExpression_def Let_def split: option.splits)
  with transformAllDecoratorsOfDeclaration_frame [OF k t] show ?thesis by simp
qed

lemma class_head_binding:
  assumes "(if HasConstructorDecorators \<in> facts
            then createClassDeclarationHeadWithDecorators env host s node name
            else createClassDeclarationHeadWithoutDecorators host s node name facts)
           = Inr (classStatement, s1)"
  shows "isClassBinding node classStatement \<and> \<not> isPrologueDirective classStatement"
  using assms
  by (auto simp: createClassDeclarationHeadWithDecorators_def
      createClassDeclarationHeadWithoutDecorators_def isClassBinding_def
      isClassExpressionOf_def Let_def
      split: if_splits prod.splits option.splits sum.splits)

lemma getClassAliasIfNeeded_alias:
  assumes "getClassAliasIfNeeded host s node = Inr (a, s')"
  shows "classAliasOf s' (node_id (c_node node)) =
           (if classWithConstructorReference host (node_id (c_node node))
            then Some (UniqueName (case node_name (c_node node) of
                                     Some x \<Rightarrow> x | None \<Rightarrow> ''default''))
            else classAliasOf s (node_id (c_node node)))"
  using assms
  by (auto simp: getClassAliasIfNeeded_def Let_def classAliasOf_def hoistVariableDeclaration_def
      split: if_splits option.splits)

lemma createClassDeclarationHeadWithDecorators_alias:
  assumes k: "visitsKeepClassAlias host (node_id (c_node node))"
    and run: "createClassDeclarationHeadWithDecorators env host s node name = Inr (st, s')"
  shows "classAliasOf s' (node_id (c_node node)) =
           (if classWithConstructorReference host (node_id (c_node node))
            then Some (UniqueName (case node_name (c_node node) of
                                     Some x \<Rightarrow> x | None \<Rightarrow> ''default''))
            else classAliasOf s (node_id (c_node node)))"
proof -
  from run obtain a s1 s2 where
    g: "getClassAliasIfNeeded host s node = Inr (a, s1)"
    and h: "visitHeritageClauses host (c_heritageClauses node) s1 = Inr s2"
    and m: "visitClassElements host (c_members node) s2 = Inr s'"
    by (auto simp: createClassDeclarationHeadWithDecorators_def transformClassMembers_def Let_def
        split: sum.splits)
  from getClassAliasIfNeeded_alias [OF g] visitHeritageClauses_keeps [OF k h]
    visitClassElements_keeps [OF k m]
  show ?thesis by simp
qed

lemma createClassDeclarationHeadWithoutDecorators_frame:
  assumes k: "visitsKeepClassAlias host i"
    and run: "createClassDeclarationHeadWithoutDecorators host s node name facts = Inr (st, s')"
  shows "classAliasOf s' i = classAliasOf s i"
proof -
  from run obtain s1 where
    h: "visitHeritageClauses host (c_heritageClauses node) s = Inr s1"
    and m: "visitClassElements host (c_members node) s1 = Inr s'"
    by (auto simp: createClassDeclarationHeadWithoutDecorators_def transformClassMembers_def
        Let_def split: sum.splits)
  from visitHeritageClauses_keeps [OF k h] visitClassElements_keeps [OF k m]
  show ?thesis by simp
qed

lemma startLexicalEnvironment_frame [simp]:
  "classAliases (startLexicalEnvironment s) = classAliases s"
  by (simp add: startLexicalEnvironment_def)

lemma endLexicalEnvironment_frame [simp]:
  "classAliases (snd (endLexicalEnvironment s)) = classAliases s"
  by (simp add: endLexicalEnvironment_def split: list.splits)

lemma HasConstructorDecorators_facts:
  "(HasConstructorDecorators \<in> getClassFacts env s node staticProperties)
     = c_classOrConstructorParameterIsDecorated node"
  by (auto simp: getClassFacts_def Let_def split: if_splits)

lemma visitClassDeclaration_slow:
  assumes "visitClassDeclaration env host s node = Inr (result, s')"
    and "takesSlowPath s node"
  shows "\<exists>classStatement s1 statements1 s2 statements2 s3 statements3 s4 name.
      (if HasConstructorDecorators \<in> getClassFacts env s node (getProperties node True True)
       then createClassDeclarationHeadWithDecorators env host
              (if UseImmediatelyInvokedFunctionExpression
                    \<in> getClassFacts env s node (getProperties node True True)
               then startLexicalEnvironment s else s) node name
       else createClassDeclarationHeadWithoutDecorators host
              (if UseImmediatelyInvokedFunctionExpression
                    \<in> getClassFacts env s node (getProperties node True True)
               then startLexicalEnvironment s else s) node name
              (getClassFacts env s node (getProperties node True True)))
        = Inr (classStatement, s1)
    \<and> addClassElementDecorationStatements env host s1 [classStatement] node False
        = Inr (statements1, s2)
    \<and> addClassElementDecorationStatements env host s2 statements1 node True
        = Inr (statements2, s3)
    \<and> addConstructorDecorationStatement env host s3 statements2 node = Inr (statements3, s4)
    \<and> s' = (if UseImmediatelyInvokedFunctionExpression
                  \<in> getClassFacts env s node (getProperties node True True)
             then snd (endLexicalEnvironment s4) else s4)
    \<and> (\<exists>exports marker.
          list_all (\<lambda>st. \<not> isDecorateStatement st) (exports @ marker)
        \<and> result =
            (if UseImmediatelyInvokedFunctionExpression
                  \<in> getClassFacts env s node (getProperties node True True)
             then [VariableStatement [] NodeFlags_None
                     [(getLocalName (c_node node),
                       Some (ImmediatelyInvokedArrowFunction
                               (insertStatementsAfterStandardPrologue
                                  (statements3 @
                                     [ReturnStatement
                                        (PartiallyEmitted (getInternalName (c_node node)))])
                                  (fst (endLexicalEnvironment s4)))))]]
             else statements3) @ exports @ marker)"
proof -
  let ?facts = "getClassFacts env s node (getProperties node True True)"
  let ?s0 = "(if UseImmediatelyInvokedFunctionExpression \<in> ?facts
              then startLexicalEnvironment s else s)"
  let ?name = "(case node_name (c_node node) of
                       Some x \<Rightarrow> Some (Identifier x)
                     | None \<Rightarrow> if ?facts \<inter> NeedsName \<noteq> {}
                               then Some (GeneratedNameForNode (node_id (c_node node)))
                               else None)"
  let ?head = "(if HasConstructorDecorators \<in> ?facts
       then createClassDeclarationHeadWithDecorators env host ?s0 node ?name
       else createClassDeclarationHeadWithoutDecorators host ?s0 node ?name ?facts)"
  let ?wrap = "\<lambda>statements3 s4.
            (if UseImmediatelyInvokedFunctionExpression \<in> ?facts
             then [VariableStatement [] NodeFlags_None
                     [(getLocalName (c_node node),
                       Some (ImmediatelyInvokedArrowFunction
                               (insertStatementsAfterStandardPrologue
                                  (statements3 @
                                     [ReturnStatement
                                        (PartiallyEmitted (getInternalName (c_node node)))])
                                  (fst (endLexicalEnvironment s4)))))]]
             else statements3)"
  let ?s5 = "\<lambda>s4. (if UseImmediatelyInvokedFunctionExpression \<in> ?facts
                    then snd (endLexicalEnvironment s4) else s4)"
  let ?exports = "\<lambda>s4. (if IsExportOfNamespace \<in> ?facts
                   then [ExpressionStatement
                           (Assignment
                              (getExternalModuleOrNamespaceExportName
                                 (currentNamespaceContainerName (?s5 s4)) (c_node node))
                              (getLocalName (c_node node)))]
                   else if UseImmediatelyInvokedFunctionExpression \<in> ?facts
                           \<or> HasConstructorDecorators \<in> ?facts
                   then (if IsDefaultExternalExport \<in> ?facts
                         then [ExportDefault (getLocalName (c_node node))]
                         else if IsNamedExternalExport \<in> ?facts
                         then [ExternalModuleExport (getLocalName (c_node node))]
                         else [])
                   else [])"
  let ?marker = "\<lambda>statements3 s4.
                  (if length (?wrap statements3 s4 @ ?exports s4) > 1
                   then [EndOfDeclarationMarker (node_id (c_node node))] else [])"
  have slow: "\<not> (\<not> isClassLikeDeclarationWithTypeScriptSyntax node
         \<and> \<not> (currentNamespace s \<noteq> None \<and> hasSyntacticModifier (c_node node) Export))"
    using assms(2) by (simp add: takesSlowPath_def)
  note run0 = assms(1) [unfolded visitClassDeclaration_def if_not_P [OF slow]]
  have tail: "list_all (\<lambda>st. \<not> isDecorateStatement st)
                (?exports s4 @ ?marker statements3 s4)"
    for statements3 s4
    by (auto simp: isDecorateStatement_def getLocalName_def getName_def split: option.splits)
  show ?thesis
  proof (cases ?head)
    case (Inl e)
    with run0 show ?thesis by (simp add: Let_def)
  next
    case (Inr h)
    obtain classStatement s1 where h: "h = (classStatement, s1)" by (cases h)
    note head = Inr [unfolded h]
    show ?thesis
    proof (cases "addClassElementDecorationStatements env host s1 [classStatement] node False")
      case (Inl e)
      with run0 head show ?thesis by (simp add: Let_def)
    next
      case (Inr r1)
      obtain statements1 s2 where r1: "r1 = (statements1, s2)" by (cases r1)
      note a1 = Inr [unfolded r1]
      show ?thesis
      proof (cases "addClassElementDecorationStatements env host s2 statements1 node True")
        case (Inl e)
        with run0 head a1 show ?thesis by (simp add: Let_def)
      next
        case (Inr r2)
        obtain statements2 s3 where r2: "r2 = (statements2, s3)" by (cases r2)
        note a2 = Inr [unfolded r2]
        show ?thesis
        proof (cases "addConstructorDecorationStatement env host s3 statements2 node")
          case (Inl e)
          with run0 head a1 a2 show ?thesis by (simp add: Let_def)
        next
          case (Inr r3)
          obtain statements3 s4 where r3: "r3 = (statements3, s4)" by (cases r3)
          note a3 = Inr [unfolded r3]
          have run: "Inr (?wrap statements3 s4 @ ?exports s4 @ ?marker statements3 s4, ?s5 s4)
                       = (Inr (result, s') :: error + statement list \<times> transform_state)"
            using run0 head a1 a2 a3
            by (auto simp: Let_def addExportMemberAssignment_def case_prod_beta
                split: if_splits)
          hence res: "result = ?wrap statements3 s4 @ ?exports s4 @ ?marker statements3 s4"
            and s': "s' = ?s5 s4"
            by simp_all
          from tail [of s4 statements3] head a1 a2 a3 s' res show ?thesis by blast
        qed
      qed
    qed
  qed
qed

text \<open>
  C1, as the code has it. For a class declaration that is not left to
  \<^verbatim>\<open>visitEachChild\<close>, \<^verbatim>\<open>visitClassDeclaration\<close> produces, in this order whatever the
  order of the members in the source: the binding of the class; one call of the decorate
  helper for each non-static decorated member for which
  \<^verbatim>\<open>getAllDecoratorsOfClassElement\<close> finds decorators, in source order; one for each such
  static member; and, when the constructor has decorators, the one statement that
  applies them, assigning through the alias when the class has one. Nothing after them
  is a decorate statement. When the class needs the wrapper, these statements are the
  body of the immediately invoked function, after the statement that declares the
  variables hoisted into the wrapper (if any) and before the \<^verbatim>\<open>return\<close>.
\<close>

theorem visitClassDeclaration_statement_order:
  assumes run: "visitClassDeclaration env host s node = Inr (result, s')"
    and slow: "takesSlowPath s node"
  shows "\<exists>classStatement memberCalls staticCalls constructorCalls variables tail.
           isClassBinding node classStatement
         \<and> list_all2 (isMemberDecorateCall node)
             (membersWithDecorateCall host node False) memberCalls
         \<and> list_all2 (isMemberDecorateCall node)
             (membersWithDecorateCall host node True) staticCalls
         \<and> (if getAllDecoratorsOfConstructor node = None then constructorCalls = []
             else (\<exists>st. constructorCalls = [st]
                        \<and> isConstructorDecorateStatement env s' node st))
         \<and> list_all (\<lambda>st. \<not> isDecorateStatement st) tail
         \<and> result =
             (if UseImmediatelyInvokedFunctionExpression
                   \<in> getClassFacts env s node (getProperties node True True)
              then [VariableStatement [] NodeFlags_None
                      [(getLocalName (c_node node),
                        Some (ImmediatelyInvokedArrowFunction
                                (hoistedVariableStatement variables
                                 @ classStatement # memberCalls @ staticCalls
                                 @ constructorCalls
                                 @ [ReturnStatement
                                      (PartiallyEmitted (getInternalName (c_node node)))])))]]
              else classStatement # memberCalls @ staticCalls @ constructorCalls)
             @ tail"
proof -
  let ?facts = "getClassFacts env s node (getProperties node True True)"
  let ?s0 = "(if UseImmediatelyInvokedFunctionExpression \<in> ?facts
              then startLexicalEnvironment s else s)"
  from visitClassDeclaration_slow [OF run slow]
  obtain classStatement s1 statements1 s2 statements2 s3 statements3 s4 name exports marker
    where
    head: "(if HasConstructorDecorators \<in> ?facts
       then createClassDeclarationHeadWithDecorators env host ?s0 node name
       else createClassDeclarationHeadWithoutDecorators host ?s0 node name ?facts)
        = Inr (classStatement, s1)"
    and a1: "addClassElementDecorationStatements env host s1 [classStatement] node False
               = Inr (statements1, s2)"
    and a2: "addClassElementDecorationStatements env host s2 statements1 node True
               = Inr (statements2, s3)"
    and a3: "addConstructorDecorationStatement env host s3 statements2 node
               = Inr (statements3, s4)"
    and s': "s' = (if UseImmediatelyInvokedFunctionExpression \<in> ?facts
                   then snd (endLexicalEnvironment s4) else s4)"
    and tail: "list_all (\<lambda>st. \<not> isDecorateStatement st) (exports @ marker)"
    and res: "result =
            (if UseImmediatelyInvokedFunctionExpression \<in> ?facts
             then [VariableStatement [] NodeFlags_None
                     [(getLocalName (c_node node),
                       Some (ImmediatelyInvokedArrowFunction
                               (insertStatementsAfterStandardPrologue
                                  (statements3 @
                                     [ReturnStatement
                                        (PartiallyEmitted (getInternalName (c_node node)))])
                                  (fst (endLexicalEnvironment s4)))))]]
             else statements3) @ exports @ marker"
    by blast
  from class_head_binding [OF head]
  have binding: "isClassBinding node classStatement"
    and noPrologue: "\<not> isPrologueDirective classStatement"
    by simp_all
  from addClassElementDecorationStatements_shape [OF a1] obtain memberCalls where
    st1: "statements1 = [classStatement] @ memberCalls"
    and m: "list_all2 (isMemberDecorateCall node)
              (membersWithDecorateCall host node False) memberCalls"
    by blast
  from addClassElementDecorationStatements_shape [OF a2] obtain staticCalls where
    st2: "statements2 = statements1 @ staticCalls"
    and st: "list_all2 (isMemberDecorateCall node)
              (membersWithDecorateCall host node True) staticCalls"
    by blast
  from addConstructorDecorationStatement_shape [OF a3] obtain constructorCalls where
    st3: "statements3 = statements2 @ constructorCalls"
    and c4: "if getAllDecoratorsOfConstructor node = None then constructorCalls = []
            else (\<exists>st. constructorCalls = [st]
                       \<and> isConstructorDecorateStatement env s4 node st)"
    by blast
  have "classAliases s' = classAliases s4" using s' by simp
  from c4 isConstructorDecorateStatement_cong [OF this, of env node]
  have c: "if getAllDecoratorsOfConstructor node = None then constructorCalls = []
            else (\<exists>st. constructorCalls = [st]
                       \<and> isConstructorDecorateStatement env s' node st)"
    by (simp split: if_splits)
  have all: "statements3 = classStatement # memberCalls @ staticCalls @ constructorCalls"
    using st1 st2 st3 by simp
  have "insertStatementsAfterStandardPrologue
          (statements3 @ [ReturnStatement (PartiallyEmitted (getInternalName (c_node node)))])
          (fst (endLexicalEnvironment s4))
        = hoistedVariableStatement (contextLexicalEnvironment s4)
          @ classStatement # memberCalls @ staticCalls @ constructorCalls
          @ [ReturnStatement (PartiallyEmitted (getInternalName (c_node node)))]"
    using noPrologue
    by (simp add: insertStatementsAfterStandardPrologue_def all endLexicalEnvironment_def)
  with res all have "result =
             (if UseImmediatelyInvokedFunctionExpression \<in> ?facts
              then [VariableStatement [] NodeFlags_None
                      [(getLocalName (c_node node),
                        Some (ImmediatelyInvokedArrowFunction
                                (hoistedVariableStatement (contextLexicalEnvironment s4)
                                 @ classStatement # memberCalls @ staticCalls
                                 @ constructorCalls
                                 @ [ReturnStatement
                                      (PartiallyEmitted (getInternalName (c_node node)))])))]]
              else classStatement # memberCalls @ staticCalls @ constructorCalls)
             @ exports @ marker"
    by simp
  with binding m st c tail show ?thesis by blast
qed

theorem visitClassDeclaration_statement_order_witness:
  "visitClassDeclaration ex_env2015 ex_classHost ex_freshState ex_decoratedClass
     = Inr (ex_loweredDecoratedClass, ex_decoratedState)
   \<and> takesSlowPath ex_freshState ex_decoratedClass
   \<and> c_members ex_decoratedClass = [ex_staticProperty, ex_method]
   \<and> membersWithDecorateCall ex_classHost ex_decoratedClass False = [ex_method]
   \<and> membersWithDecorateCall ex_classHost ex_decoratedClass True = [ex_staticProperty]
   \<and> (\<exists>classStatement memberCall staticCall constructorCall tail.
         isClassBinding ex_decoratedClass classStatement
       \<and> isMemberDecorateCall ex_decoratedClass ex_method memberCall
       \<and> isMemberDecorateCall ex_decoratedClass ex_staticProperty staticCall
       \<and> isConstructorDecorateStatement ex_env2015 ex_decoratedState ex_decoratedClass
           constructorCall
       \<and> list_all (\<lambda>st. \<not> isDecorateStatement st) tail
       \<and> ex_loweredDecoratedClass
           = [classStatement, memberCall, staticCall, constructorCall] @ tail)"
proof -
  have run: "visitClassDeclaration ex_env2015 ex_classHost ex_freshState ex_decoratedClass
               = Inr (ex_loweredDecoratedClass, ex_decoratedState)"
    by code_simp
  have slow: "takesSlowPath ex_freshState ex_decoratedClass"
    by code_simp
  have members: "c_members ex_decoratedClass = [ex_staticProperty, ex_method]"
    by (simp add: ex_decoratedClass_def)
  have instanceCalls: "membersWithDecorateCall ex_classHost ex_decoratedClass False = [ex_method]"
    by code_simp
  have staticCalls: "membersWithDecorateCall ex_classHost ex_decoratedClass True
                  = [ex_staticProperty]"
    by code_simp
  have facts: "UseImmediatelyInvokedFunctionExpression
                 \<notin> getClassFacts ex_env2015 ex_freshState ex_decoratedClass
                      (getProperties ex_decoratedClass True True)"
    by code_simp
  have ctor: "getAllDecoratorsOfConstructor ex_decoratedClass \<noteq> None"
    by code_simp
  from visitClassDeclaration_statement_order [OF run slow]
  have "\<exists>classStatement memberCall staticCall constructorCall tail.
         isClassBinding ex_decoratedClass classStatement
       \<and> isMemberDecorateCall ex_decoratedClass ex_method memberCall
       \<and> isMemberDecorateCall ex_decoratedClass ex_staticProperty staticCall
       \<and> isConstructorDecorateStatement ex_env2015 ex_decoratedState ex_decoratedClass
           constructorCall
       \<and> list_all (\<lambda>st. \<not> isDecorateStatement st) tail
       \<and> ex_loweredDecoratedClass
           = [classStatement, memberCall, staticCall, constructorCall] @ tail"
    unfolding instanceCalls staticCalls
    using facts ctor
    by (auto simp: list_all2_Cons1) blast
  with run slow members instanceCalls staticCalls show ?thesis by simp
qed

text \<open>
  In \<^verbatim>\<open>@d0 class C { @d1 get x(): number {..} set x(@d2 v: number) {..} }\<close> both
  accessors are decorated members, and one call of the decorate helper is emitted for
  the two.
\<close>

theorem decorated_accessor_pair_counterexample:
  "getDecoratedClassElements ex_accessorClass False = [ex_getter, ex_setter]
   \<and> visitClassDeclaration ex_env2015 ex_classHost ex_freshState ex_accessorClass
       = Inr ([VariableStatement [] NodeFlags_Let
                 [(DeclName LocalName ''C'',
                   Some (ClassExpression (Some (Identifier ''C'')) 7))],
               ExpressionStatement
                 (DecorateHelper
                    [SourceExpr 61, ParamHelper (SourceExpr 62) 0,
                     MetadataHelper ''design:type'' (Identifier ''Number''),
                     MetadataHelper ''design:paramtypes''
                       (ArrayLiteral [Identifier ''Number''])]
                    (PropertyAccess (DeclName PlainName ''C'') (Identifier ''prototype''))
                    (Some (StringLiteral ''x'')) (Some NullLiteral)),
               ExpressionStatement
                 (Assignment (DeclName LocalName ''C'')
                    (DecorateHelper [SourceExpr 60] (DeclName LocalName ''C'') None None)),
               EndOfDeclarationMarker 7],
              ex_freshState\<lparr>contextEmitHelpers :=
                 [''typescript:param'', ''typescript:metadata'', ''typescript:metadata'',
                  ''typescript:decorate'', ''typescript:decorate'']\<rparr>)"
  by code_simp

text \<open>
  C7, as the code has it. Let the visits of the children leave the alias of the class
  alone. After the lowering of a class declaration, the class has an alias in
  \<^verbatim>\<open>classAliases\<close>, a new unique name, when the class is not left to
  \<^verbatim>\<open>visitEachChild\<close>, the class or a parameter of its constructor is decorated, and
  the resolver marks the class as referring to its own constructor. In every other
  case its entry is what it was before: none is created. The wrapper plays no part.
\<close>

theorem class_alias_created:
  assumes run: "visitClassDeclaration env host s node = Inr (result, s')"
    and keep: "visitsKeepClassAlias host (node_id (c_node node))"
  shows "classAliasOf s' (node_id (c_node node)) =
           (if takesSlowPath s node \<and> c_classOrConstructorParameterIsDecorated node
               \<and> classWithConstructorReference host (node_id (c_node node))
            then Some (UniqueName (case node_name (c_node node) of
                                     Some x \<Rightarrow> x | None \<Rightarrow> ''default''))
            else classAliasOf s (node_id (c_node node)))"
proof (cases "takesSlowPath s node")
  case False
  with run obtain s1 where "visitEachChild host node s = Inr s1" and "s' = s1"
    by (auto simp: visitClassDeclaration_def takesSlowPath_def split: sum.splits)
  with visitEachChild_keeps [OF keep] False show ?thesis by simp
next
  case True
  let ?i = "node_id (c_node node)"
  let ?facts = "getClassFacts env s node (getProperties node True True)"
  let ?s0 = "(if UseImmediatelyInvokedFunctionExpression \<in> ?facts
              then startLexicalEnvironment s else s)"
  from visitClassDeclaration_slow [OF run True]
  obtain classStatement s1 statements1 s2 statements2 s3 statements3 s4 name where
    head: "(if HasConstructorDecorators \<in> ?facts
       then createClassDeclarationHeadWithDecorators env host ?s0 node name
       else createClassDeclarationHeadWithoutDecorators host ?s0 node name ?facts)
        = Inr (classStatement, s1)"
    and a1: "addClassElementDecorationStatements env host s1 [classStatement] node False
               = Inr (statements1, s2)"
    and a2: "addClassElementDecorationStatements env host s2 statements1 node True
               = Inr (statements2, s3)"
    and a3: "addConstructorDecorationStatement env host s3 statements2 node
               = Inr (statements3, s4)"
    and s': "s' = (if UseImmediatelyInvokedFunctionExpression \<in> ?facts
                   then snd (endLexicalEnvironment s4) else s4)"
    by blast
  have s0: "classAliasOf ?s0 ?i = classAliasOf s ?i"
    by (simp add: classAliasOf_def)
  have h: "classAliasOf s1 ?i =
             (if c_classOrConstructorParameterIsDecorated node
                 \<and> classWithConstructorReference host ?i
              then Some (UniqueName (case node_name (c_node node) of
                                       Some x \<Rightarrow> x | None \<Rightarrow> ''default''))
              else classAliasOf s ?i)"
  proof (cases "c_classOrConstructorParameterIsDecorated node")
    case True
    with head have "createClassDeclarationHeadWithDecorators env host ?s0 node name
                      = Inr (classStatement, s1)"
      by (simp add: HasConstructorDecorators_facts)
    from createClassDeclarationHeadWithDecorators_alias [OF keep this] True s0
    show ?thesis by simp
  next
    case False
    with head have "createClassDeclarationHeadWithoutDecorators host ?s0 node name ?facts
                      = Inr (classStatement, s1)"
      by (simp add: HasConstructorDecorators_facts)
    from createClassDeclarationHeadWithoutDecorators_frame [OF keep this] False s0
    show ?thesis by simp
  qed
  have "classAliasOf s' ?i = classAliasOf s4 ?i"
    using s' by (simp add: classAliasOf_def)
  also have "\<dots> = classAliasOf s3 ?i"
    by (rule addConstructorDecorationStatement_frame [OF keep a3])
  also have "\<dots> = classAliasOf s2 ?i"
    by (rule addClassElementDecorationStatements_frame [OF keep a2])
  also have "\<dots> = classAliasOf s1 ?i"
    by (rule addClassElementDecorationStatements_frame [OF keep a1])
  finally show ?thesis using h True by simp
qed

theorem class_alias_created_witness:
  "visitClassDeclaration ex_env ex_selfReferenceHost ex_freshState ex_decoratedClass
     = Inr (ex_loweredAliasedClass, ex_aliasState)
   \<and> visitsKeepClassAlias ex_selfReferenceHost (node_id (c_node ex_decoratedClass))
   \<and> takesSlowPath ex_freshState ex_decoratedClass
   \<and> c_classOrConstructorParameterIsDecorated ex_decoratedClass
   \<and> classWithConstructorReference ex_selfReferenceHost (node_id (c_node ex_decoratedClass))
   \<and> classAliasOf ex_freshState 7 = None
   \<and> classAliasOf ex_aliasState 7 = Some (UniqueName ''C'')"
proof -
  have run: "visitClassDeclaration ex_env ex_selfReferenceHost ex_freshState ex_decoratedClass
               = Inr (ex_loweredAliasedClass, ex_aliasState)"
    by code_simp
  have keep: "visitsKeepClassAlias ex_selfReferenceHost (node_id (c_node ex_decoratedClass))"
    by (simp add: visitsKeepClassAlias_def ex_selfReferenceHost_def ex_classHost_def)
  have slow: "takesSlowPath ex_freshState ex_decoratedClass"
    by code_simp
  have decorated: "c_classOrConstructorParameterIsDecorated ex_decoratedClass"
    by (simp add: ex_decoratedClass_def)
  have marker: "classWithConstructorReference ex_selfReferenceHost
                  (node_id (c_node ex_decoratedClass))"
    by code_simp
  have before: "classAliasOf ex_freshState 7 = None"
    by (simp add: classAliasOf_def ex_freshState_def ex_state_def)
  have name: "node_id (c_node ex_decoratedClass) = 7
              \<and> node_name (c_node ex_decoratedClass) = Some ''C''"
    by (simp add: ex_decoratedClass_def ex_classNode_def)
  from class_alias_created [OF run keep] slow decorated marker name
  have "classAliasOf ex_aliasState 7 = Some (UniqueName ''C'')"
    by simp
  with run keep slow decorated marker before show ?thesis by simp
qed

text \<open>
  \<^verbatim>\<open>class C { static z = ...; }\<close> below ES2015 needs the wrapper and, here, refers to its
  own constructor; it has no decorators, and no alias is created.
\<close>

theorem class_alias_counterexample:
  "classWithConstructorReference ex_selfReferenceHost (node_id (c_node ex_staticClass))
   \<and> UseImmediatelyInvokedFunctionExpression
       \<in> getClassFacts ex_env ex_freshState ex_staticClass
           (getProperties ex_staticClass True True)
   \<and> visitClassDeclaration ex_env ex_selfReferenceHost ex_freshState ex_staticClass
       = Inr ([VariableStatement [] NodeFlags_None
                 [(DeclName LocalName ''C'',
                   Some (ImmediatelyInvokedArrowFunction
                      [ClassDeclarationStatement [] (Some (Identifier ''C'')) 7,
                       ReturnStatement (PartiallyEmitted (DeclName InternalName ''C''))]))]],
              ex_freshState)
   \<and> classAliases ex_freshState = None"
  by code_simp

end
